theory Spec2Isabelle
  imports Complex_Main "HOL-Library.Word"
begin

unbundle bit_operations_syntax

section \<open>Numbers\<close>

text \<open>
  Kotlin's \<^verbatim>\<open>Float\<close> and JavaScript's \<^verbatim>\<open>number\<close> are IEEE 754 binary
  floating-point types. A value is modelled as a finite real or one of the three special
  values. The special values follow the IEEE rules (\<open>0/0\<close>, \<open>\<infinity> - \<infinity>\<close>
  and \<open>0 * \<infinity>\<close> are NaN, every comparison with NaN is false). The operations of this
  section are exact on finite values; the sign of zero is not modelled. They are the
  arithmetic of the calibration code (double precision, read without rounding) and of the
  four bounds of the eye-region window, which are truncated to integers at once. All other
  \<^verbatim>\<open>Float\<close> arithmetic of \<^verbatim>\<open>TensorFlowProcessor.kt\<close> uses the operations of the
  next section, which round every result to binary32.
\<close>

datatype number = Fin real | PInf | NInf | NaN

fun isNaN :: "number \<Rightarrow> bool" where
  "isNaN NaN = True"
| "isNaN _ = False"

fun isFinite :: "number \<Rightarrow> bool" where
  "isFinite (Fin a) = True"
| "isFinite _ = False"

fun the_real :: "number \<Rightarrow> real" where
  "the_real (Fin a) = a"
| "the_real _ = 0"

fun fneg :: "number \<Rightarrow> number" where
  "fneg (Fin a) = Fin (- a)"
| "fneg PInf = NInf"
| "fneg NInf = PInf"
| "fneg NaN = NaN"

fun fadd :: "number \<Rightarrow> number \<Rightarrow> number" where
  "fadd (Fin a) (Fin b) = Fin (a + b)"
| "fadd NaN _ = NaN"
| "fadd _ NaN = NaN"
| "fadd PInf NInf = NaN"
| "fadd NInf PInf = NaN"
| "fadd PInf _ = PInf"
| "fadd _ PInf = PInf"
| "fadd NInf _ = NInf"
| "fadd _ NInf = NInf"

definition fsub :: "number \<Rightarrow> number \<Rightarrow> number" where
  "fsub a b = fadd a (fneg b)"

fun fmul :: "number \<Rightarrow> number \<Rightarrow> number" where
  "fmul (Fin a) (Fin b) = Fin (a * b)"
| "fmul NaN _ = NaN"
| "fmul _ NaN = NaN"
| "fmul PInf (Fin b) = (if b = 0 then NaN else if 0 < b then PInf else NInf)"
| "fmul NInf (Fin b) = (if b = 0 then NaN else if 0 < b then NInf else PInf)"
| "fmul (Fin a) PInf = (if a = 0 then NaN else if 0 < a then PInf else NInf)"
| "fmul (Fin a) NInf = (if a = 0 then NaN else if 0 < a then NInf else PInf)"
| "fmul PInf PInf = PInf"
| "fmul PInf NInf = NInf"
| "fmul NInf PInf = NInf"
| "fmul NInf NInf = PInf"

text \<open>Division by a zero divisor treats the zero as positive (signed zeros are not modelled).\<close>

fun fdiv :: "number \<Rightarrow> number \<Rightarrow> number" where
  "fdiv (Fin a) (Fin b) =
     (if b = 0 then (if a = 0 then NaN else if 0 < a then PInf else NInf)
      else Fin (a / b))"
| "fdiv NaN _ = NaN"
| "fdiv _ NaN = NaN"
| "fdiv (Fin a) PInf = Fin 0"
| "fdiv (Fin a) NInf = Fin 0"
| "fdiv PInf (Fin b) = (if 0 \<le> b then PInf else NInf)"
| "fdiv NInf (Fin b) = (if 0 \<le> b then NInf else PInf)"
| "fdiv PInf PInf = NaN"
| "fdiv PInf NInf = NaN"
| "fdiv NInf PInf = NaN"
| "fdiv NInf NInf = NaN"

fun flt :: "number \<Rightarrow> number \<Rightarrow> bool" where
  "flt (Fin a) (Fin b) = (a < b)"
| "flt NaN _ = False"
| "flt _ NaN = False"
| "flt NInf NInf = False"
| "flt NInf _ = True"
| "flt _ NInf = False"
| "flt PInf _ = False"
| "flt _ PInf = True"

definition fgt :: "number \<Rightarrow> number \<Rightarrow> bool" where
  "fgt a b = flt b a"

definition fle :: "number \<Rightarrow> number \<Rightarrow> bool" where
  "fle a b = (\<not> isNaN a \<and> \<not> isNaN b \<and> \<not> flt b a)"

text \<open>\<^verbatim>\<open>Math.min\<close>, \<^verbatim>\<open>Math.max\<close> (\<^verbatim>\<open>kotlin.math.min\<close>,
  \<^verbatim>\<open>kotlin.math.max\<close> on \<^verbatim>\<open>Float\<close> call them): NaN when an argument is NaN.\<close>

definition fmin :: "number \<Rightarrow> number \<Rightarrow> number" where
  "fmin a b = (if isNaN a \<or> isNaN b then NaN else if flt b a then b else a)"

definition fmax :: "number \<Rightarrow> number \<Rightarrow> number" where
  "fmax a b = (if isNaN a \<or> isNaN b then NaN else if flt a b then b else a)"

fun fabs :: "number \<Rightarrow> number" where
  "fabs (Fin a) = Fin \<bar>a\<bar>"
| "fabs PInf = PInf"
| "fabs NInf = PInf"
| "fabs NaN = NaN"

text \<open>\<^verbatim>\<open>exp\<close>: \<open>exp(-\<infinity>) = 0\<close>, \<open>exp(\<infinity>) = \<infinity>\<close>.\<close>

fun fexp :: "number \<Rightarrow> number" where
  "fexp (Fin a) = Fin (exp a)"
| "fexp PInf = PInf"
| "fexp NInf = Fin 0"
| "fexp NaN = NaN"

section \<open>Binary32 arithmetic\<close>

text \<open>
  A Kotlin \<^verbatim>\<open>Float\<close> operation returns the exact result rounded to the nearest
  binary32 value, ties to the even significand. \<open>f32\<close> is that rounding: a result of
  magnitude \<open>2\<^sup>1\<^sup>2\<^sup>8 - 2\<^sup>1\<^sup>0\<^sup>3\<close> or more (the largest binary32 value plus half a unit
  in its last place) overflows to an infinity; otherwise the result is rounded to a
  multiple of the unit in the last place, \<open>2\<^sup>e\<^sup>-\<^sup>2\<^sup>3\<close> for a magnitude in
  \<open>[2\<^sup>e, 2\<^sup>e\<^sup>+\<^sup>1)\<close> and \<open>2\<^sup>-\<^sup>1\<^sup>4\<^sup>9\<close> below \<open>2\<^sup>-\<^sup>1\<^sup>2\<^sup>6\<close> (the subnormal range).
\<close>

definition roundHalfEven :: "real \<Rightarrow> int" where
  "roundHalfEven q =
     (let f = \<lfloor>q\<rfloor>; d = q - of_int f
      in if d < 1 / 2 then f else if 1 / 2 < d then f + 1 else if even f then f else f + 1)"

definition ulpExp :: "real \<Rightarrow> int" where
  "ulpExp r = max \<lfloor>log 2 \<bar>r\<bar>\<rfloor> (- 126) - 23"

definition f32 :: "real \<Rightarrow> number" where
  "f32 r =
     (if r = 0 then Fin 0
      else if 2 ^ 128 - 2 ^ 103 \<le> r then PInf
      else if r \<le> - (2 ^ 128 - 2 ^ 103) then NInf
      else (let u = 2 powi (ulpExp r)
            in Fin (of_int (roundHalfEven (r / u)) * u)))"

fun r32 :: "number \<Rightarrow> number" where
  "r32 (Fin r) = f32 r"
| "r32 PInf = PInf"
| "r32 NInf = NInf"
| "r32 NaN = NaN"

definition fadd32 :: "number \<Rightarrow> number \<Rightarrow> number" where
  "fadd32 a b = r32 (fadd a b)"

definition fsub32 :: "number \<Rightarrow> number \<Rightarrow> number" where
  "fsub32 a b = r32 (fsub a b)"

definition fmul32 :: "number \<Rightarrow> number \<Rightarrow> number" where
  "fmul32 a b = r32 (fmul a b)"

definition fdiv32 :: "number \<Rightarrow> number \<Rightarrow> number" where
  "fdiv32 a b = r32 (fdiv a b)"

text \<open>\<^verbatim>\<open>kotlin.math.exp\<close> on a \<^verbatim>\<open>Float\<close> computes the exponential in double
  precision and converts the result to \<^verbatim>\<open>Float\<close>; the double is taken to be the exact
  exponential.\<close>

definition fexp32 :: "number \<Rightarrow> number" where
  "fexp32 a = r32 (fexp a)"

text \<open>\<^verbatim>\<open>Int.toFloat()\<close> rounds to the nearest \<^verbatim>\<open>Float\<close>.\<close>

definition toFloat32 :: "int \<Rightarrow> number" where
  "toFloat32 i = f32 (of_int i)"

section \<open>TensorFlowProcessor.kt: the data classes\<close>

record Point =
  pt_x :: number
  pt_y :: number

record EyeData =
  iris :: Point
  innerCorner :: Point
  outerCorner :: Point

record GazeData =
  normalizedGazeX :: number
  rawGazeX :: number
  leftEyeX :: number
  rightEyeX :: number
  gaze_confidence :: number

record EyeLandmarks =
  leftEye :: EyeData
  rightEye :: EyeData
  confidence :: number
  timestamp :: int
  highResTimestamp :: int
  gazeData :: "GazeData option"

section \<open>TensorFlowProcessor.kt: calculateNormalizedGaze\<close>

definition calculateNormalizedGaze :: "number \<Rightarrow> number \<Rightarrow> number \<Rightarrow> number \<Rightarrow> GazeData" where
  "calculateNormalizedGaze irisX leftEyeX' rightEyeX' confidence' =
     (let actualLeftX = fmin leftEyeX' rightEyeX';
          actualRightX = fmax leftEyeX' rightEyeX';
          eyeSpan = fsub32 actualRightX actualLeftX;
          normalizedGazeX' =
            (if fgt eyeSpan (f32 0.001) then
               (let rawNormalized =
                      fsub32 (fmul32 (Fin 2) (fdiv32 (fsub32 irisX actualLeftX) eyeSpan)) (Fin 1)
                in fmax (Fin (- 1)) (fmin (Fin 1) rawNormalized))
             else Fin 0)
      in \<lparr> normalizedGazeX = normalizedGazeX',
           rawGazeX = irisX,
           leftEyeX = actualLeftX,
           rightEyeX = actualRightX,
           gaze_confidence = confidence' \<rparr>)"

section \<open>TensorFlowProcessor.kt: conversion from Float to Int\<close>

text \<open>\<^verbatim>\<open>Float.toInt()\<close> truncates toward zero, saturates at the bounds of the 32-bit
  \<^verbatim>\<open>Int\<close> and maps NaN to 0.\<close>

fun toInt :: "number \<Rightarrow> int" where
  "toInt (Fin a) =
     (let t = (if 0 \<le> a then \<lfloor>a\<rfloor> else \<lceil>a\<rceil>)
      in if 2147483647 < t then 2147483647
         else if t < - 2147483648 then - 2147483648 else t)"
| "toInt PInf = 2147483647"
| "toInt NInf = - 2147483648"
| "toInt NaN = 0"

section \<open>TensorFlowProcessor.kt: detectIrisInEyeRegion\<close>

text \<open>A bitmap is its size and its ARGB pixels. \<^verbatim>\<open>getPixel\<close> throws outside the
  bitmap: \<open>None\<close> stands for the exception.\<close>

record Bitmap =
  bmp_width :: int
  bmp_height :: int
  bmp_pixels :: "int \<Rightarrow> int \<Rightarrow> 32 word"

definition getPixel :: "Bitmap \<Rightarrow> int \<Rightarrow> int \<Rightarrow> 32 word option" where
  "getPixel bitmap x y =
     (if 0 \<le> x \<and> x < bmp_width bitmap \<and> 0 \<le> y \<and> y < bmp_height bitmap
      then Some (bmp_pixels bitmap x y) else None)"

text \<open>Lines 281 to 285: the bounds \<open>(left, top, right, bottom)\<close> of the eye region. The
  half size and the four sums are read without rounding; each sum is truncated to an
  integer at once.\<close>

definition regionBounds :: "Bitmap \<Rightarrow> number \<Rightarrow> number \<Rightarrow> number \<Rightarrow> int \<times> int \<times> int \<times> int" where
  "regionBounds bitmap eyeCenterX eyeCenterY eyeRegionSize =
     (let regionHalfSize = fdiv eyeRegionSize (Fin 2);
          left = max 0 (toInt (fsub eyeCenterX regionHalfSize));
          top' = max 0 (toInt (fsub eyeCenterY regionHalfSize));
          right = min (bmp_width bitmap) (toInt (fadd eyeCenterX regionHalfSize));
          bottom = min (bmp_height bitmap) (toInt (fadd eyeCenterY regionHalfSize))
      in (left, top', right, bottom))"

text \<open>Lines 306 to 309: the weighted intensity of a pixel.\<close>

definition intensityOf :: "32 word \<Rightarrow> number" where
  "intensityOf pixel =
     (let red = sint (signed_drop_bit 16 pixel AND 0xFF);
          green = sint (signed_drop_bit 8 pixel AND 0xFF);
          blue = sint (pixel AND 0xFF)
      in fadd32 (fadd32 (fmul32 (toFloat32 red) (f32 0.3)) (fmul32 (toFloat32 green) (f32 0.3)))
                (fmul32 (toFloat32 blue) (f32 0.4)))"

text \<open>The body of the inner loop over \<open>x\<close> (lines 303 to 315). The state is
  \<open>(darkestX, darkestIntensity)\<close>; \<open>None\<close> is an exception on its way to the
  \<^verbatim>\<open>catch\<close> of line 329.\<close>

definition scanPixel :: "Bitmap \<Rightarrow> int \<Rightarrow> (number \<times> number) option \<Rightarrow> int \<Rightarrow> (number \<times> number) option" where
  "scanPixel bitmap scanY st x =
     (case st of
        None \<Rightarrow> None
      | Some (darkestX, darkestIntensity) \<Rightarrow>
          (case getPixel bitmap x scanY of
             None \<Rightarrow> None
           | Some pixel \<Rightarrow>
               (let intensity = intensityOf pixel
                in if flt intensity darkestIntensity then Some (toFloat32 x, intensity)
                   else Some (darkestX, darkestIntensity))))"

text \<open>The body of the outer loop over \<open>lineIdx\<close> (lines 300 to 317).\<close>

definition scanLine :: "Bitmap \<Rightarrow> int \<Rightarrow> int \<Rightarrow> int \<Rightarrow> int \<Rightarrow> int \<Rightarrow> (number \<times> number) option \<Rightarrow> int \<Rightarrow> (number \<times> number) option" where
  "scanLine bitmap left right top' bottom lineSpacing st lineIdx =
     (let scanY = top' + lineSpacing * (lineIdx + 1)
      in if top' \<le> scanY \<and> scanY < bottom
         then foldl (scanPixel bitmap scanY) st [left..right - 1]
         else st)"

definition detectIrisInEyeRegion :: "Bitmap \<Rightarrow> number \<Rightarrow> number \<Rightarrow> number \<Rightarrow> number" where
  "detectIrisInEyeRegion bitmap eyeCenterX eyeCenterY eyeRegionSize =
     (case regionBounds bitmap eyeCenterX eyeCenterY eyeRegionSize of
        (left, top', right, bottom) \<Rightarrow>
          if right \<le> left \<or> bottom \<le> top' then eyeCenterX
          else
            (let scanLines = 3;
                 lineSpacing = max 1 ((bottom - top') div (scanLines + 1))
             in case foldl (scanLine bitmap left right top' bottom lineSpacing)
                       (Some (eyeCenterX, Fin 255)) [0..scanLines - 1] of
                  None \<Rightarrow> eyeCenterX
                | Some (darkestX, darkestIntensity) \<Rightarrow>
                    (let maxMovement = fmul32 eyeRegionSize (f32 0.5);
                         movement = fsub32 darkestX eyeCenterX;
                         smoothedX =
                           fadd32 eyeCenterX (fmax (fneg maxMovement) (fmin maxMovement movement))
                     in smoothedX)))"

section \<open>TensorFlowProcessor.kt: processBlazeFaceDetections\<close>

text \<open>
  \<^verbatim>\<open>runInference\<close> allocates the output tensors with the shapes \<open>[1, 896, 16]\<close> and
  \<open>[1, 896, 1]\<close>. The model keeps the middle dimension: \<open>regressors\<close> is the list of rows
  \<^verbatim>\<open>regressors[0]\<close>, and \<open>classificators\<close> is the list of logits
  \<^verbatim>\<open>classificators[0][i][0]\<close>. An array read out of range is the exception it is on
  the JVM.
\<close>

datatype exn = ArrayIndexOutOfBoundsException | IllegalStateException | OtherException

definition sigmoid :: "number \<Rightarrow> number" where
  "sigmoid logit = fdiv32 (Fin 1) (fadd32 (Fin 1) (fexp32 (fneg logit)))"

definition confidenceThreshold :: number where
  "confidenceThreshold = f32 0.01"

text \<open>The body of the loop of lines 166 to 177, on the state
  \<open>(bestDetectionIndex, bestConfidence)\<close>.\<close>

definition scanStep :: "int \<times> number \<Rightarrow> nat \<times> number \<Rightarrow> int \<times> number" where
  "scanStep st il =
     (case st of (bestDetectionIndex, bestConfidence) \<Rightarrow>
      case il of (i, logit) \<Rightarrow>
        (let confidence' = sigmoid logit
         in if fgt confidence' bestConfidence
            then (if fgt confidence' confidenceThreshold then int i else bestDetectionIndex,
                  confidence')
            else (bestDetectionIndex, bestConfidence)))"

definition bestDetection :: "number list \<Rightarrow> int \<times> number" where
  "bestDetection classificators = foldl scanStep (- 1, Fin 0) (enumerate 0 classificators)"

record FaceBox =
  faceLeft :: number
  faceTop :: number
  faceWidth :: number
  faceHeight :: number

text \<open>Lines 191 to 203: the face box of a regressor row, in image coordinates.\<close>

definition faceBox :: "number list \<Rightarrow> int \<Rightarrow> int \<Rightarrow> exn + FaceBox" where
  "faceBox coords imageWidth imageHeight =
     (if length coords < 4 then Inl ArrayIndexOutOfBoundsException
      else
        (let scaleX = fdiv32 (toFloat32 imageWidth) (Fin 128);
             scaleY = fdiv32 (toFloat32 imageHeight) (Fin 128);
             faceX = fmul32 (coords ! 0) scaleX;
             faceY = fmul32 (coords ! 1) scaleY;
             faceWidth' = fmul32 (coords ! 2) scaleX;
             faceHeight' = fmul32 (coords ! 3) scaleY;
             faceLeft' = fsub32 faceX (fdiv32 faceWidth' (Fin 2));
             faceTop' = fsub32 faceY (fdiv32 faceHeight' (Fin 2))
         in Inr \<lparr> faceLeft = faceLeft', faceTop = faceTop',
                  faceWidth = faceWidth', faceHeight = faceHeight' \<rparr>))"

text \<open>Lines 160 to 203: the accepted detection, its confidence and its face box;
  \<open>None\<close> when no detection is above the threshold.\<close>

definition decodeFace :: "number list list \<Rightarrow> number list \<Rightarrow> int \<Rightarrow> int \<Rightarrow> exn + (number \<times> FaceBox) option" where
  "decodeFace regressors classificators imageWidth imageHeight =
     (case bestDetection classificators of
        (bestDetectionIndex, bestConfidence) \<Rightarrow>
          if bestDetectionIndex = - 1 then Inr None
          else if length regressors \<le> nat bestDetectionIndex
          then Inl ArrayIndexOutOfBoundsException
          else
            (case faceBox (regressors ! nat bestDetectionIndex) imageWidth imageHeight of
               Inl e \<Rightarrow> Inl e
             | Inr box \<Rightarrow> Inr (Some (bestConfidence, box))))"

definition createNoFaceResult :: "int \<Rightarrow> int \<Rightarrow> EyeLandmarks" where
  "createNoFaceResult currentTimeMillis nanoTime =
     \<lparr> leftEye = \<lparr> iris = \<lparr> pt_x = Fin 0, pt_y = Fin 0 \<rparr>,
                   innerCorner = \<lparr> pt_x = Fin 0, pt_y = Fin 0 \<rparr>,
                   outerCorner = \<lparr> pt_x = Fin 0, pt_y = Fin 0 \<rparr> \<rparr>,
       rightEye = \<lparr> iris = \<lparr> pt_x = Fin 0, pt_y = Fin 0 \<rparr>,
                    innerCorner = \<lparr> pt_x = Fin 0, pt_y = Fin 0 \<rparr>,
                    outerCorner = \<lparr> pt_x = Fin 0, pt_y = Fin 0 \<rparr> \<rparr>,
       confidence = Fin 0,
       timestamp = currentTimeMillis,
       highResTimestamp = nanoTime,
       gazeData = None \<rparr>"

text \<open>Lines 207 to 250: the landmarks of an accepted detection.\<close>

definition faceLandmarks :: "Bitmap \<Rightarrow> number \<Rightarrow> FaceBox \<Rightarrow> int \<Rightarrow> int \<Rightarrow> EyeLandmarks" where
  "faceLandmarks bitmap bestConfidence box currentTimeMillis nanoTime =
     (let eyeY = fadd32 (faceTop box) (fmul32 (faceHeight box) (f32 0.35));
          leftEyeX' = fadd32 (faceLeft box) (fmul32 (faceWidth box) (f32 0.3));
          rightEyeX' = fadd32 (faceLeft box) (fmul32 (faceWidth box) (f32 0.7));
          eyeSpacing = fmul32 (faceWidth box) (f32 0.08);
          leftIrisX = detectIrisInEyeRegion bitmap leftEyeX' eyeY (fmul32 (faceWidth box) (f32 0.15));
          rightIrisX = detectIrisInEyeRegion bitmap rightEyeX' eyeY (fmul32 (faceWidth box) (f32 0.15));
          averageIrisX = fdiv32 (fadd32 leftIrisX rightIrisX) (Fin 2);
          leftEyeOuterX = fsub32 leftEyeX' eyeSpacing;
          rightEyeOuterX = fadd32 rightEyeX' eyeSpacing;
          gazeData' = calculateNormalizedGaze averageIrisX leftEyeOuterX rightEyeOuterX bestConfidence
      in \<lparr> leftEye = \<lparr> iris = \<lparr> pt_x = leftIrisX, pt_y = eyeY \<rparr>,
                        innerCorner = \<lparr> pt_x = fadd32 leftEyeX' eyeSpacing, pt_y = eyeY \<rparr>,
                        outerCorner = \<lparr> pt_x = leftEyeOuterX, pt_y = eyeY \<rparr> \<rparr>,
           rightEye = \<lparr> iris = \<lparr> pt_x = rightIrisX, pt_y = eyeY \<rparr>,
                         innerCorner = \<lparr> pt_x = fsub32 rightEyeX' eyeSpacing, pt_y = eyeY \<rparr>,
                         outerCorner = \<lparr> pt_x = rightEyeOuterX, pt_y = eyeY \<rparr> \<rparr>,
           confidence = bestConfidence,
           timestamp = currentTimeMillis,
           highResTimestamp = nanoTime,
           gazeData = Some gazeData' \<rparr>)"

definition processBlazeFaceDetections :: "number list list \<Rightarrow> number list \<Rightarrow> Bitmap \<Rightarrow> int \<Rightarrow> int \<Rightarrow> int \<Rightarrow> int \<Rightarrow> exn + EyeLandmarks" where
  "processBlazeFaceDetections regressors classificators bitmap imageWidth imageHeight
       currentTimeMillis nanoTime =
     (case decodeFace regressors classificators imageWidth imageHeight of
        Inl e \<Rightarrow> Inl e
      | Inr None \<Rightarrow> Inr (createNoFaceResult currentTimeMillis nanoTime)
      | Inr (Some (bestConfidence, box)) \<Rightarrow>
          Inr (faceLandmarks bitmap bestConfidence box currentTimeMillis nanoTime))"

section \<open>TensorFlowProcessor.kt: processFrame\<close>

text \<open>
  The camera image, the conversion of a frame to a bitmap and to the model's input, and
  the TensorFlow Lite interpreter are the platform's. An image is its size and its plane
  bytes; the interpreter is a function from the input buffer to the two output tensors,
  or to the exception it throws; the three operations of \<^verbatim>\<open>ImageProcessor\<close> and the
  two clocks are passed in as a record.
\<close>

record Image =
  img_width :: int
  img_height :: int
  img_planes :: "8 word list"

type_synonym Interpreter = "number list \<Rightarrow> exn + (number list list \<times> number list)"

record TensorFlowProcessor =
  interpreter :: "Interpreter option"
  inputBuffer :: "number list option"
  isModelLoaded :: bool

record Platform =
  imageToBitmap :: "Image \<Rightarrow> Bitmap option"
  preprocessBitmap :: "Bitmap \<Rightarrow> exn + Bitmap"
  bitmapToInputBuffer :: "Bitmap \<Rightarrow> number list \<Rightarrow> exn + number list"
  currentTimeMillis :: int
  nanoTime :: int

definition runInference :: "TensorFlowProcessor \<Rightarrow> exn + (number list list \<times> number list)" where
  "runInference p =
     (case interpreter p of
        None \<Rightarrow> Inl IllegalStateException
      | Some run \<Rightarrow>
          (case inputBuffer p of
             None \<Rightarrow> Inl OtherException
           | Some buf \<Rightarrow> run buf))"

text \<open>The body of the \<^verbatim>\<open>try\<close> of lines 97 to 116: \<open>Inl\<close> is an exception thrown in
  it, \<open>Inr\<close> the value it returns.\<close>

definition processFrameBody :: "Platform \<Rightarrow> TensorFlowProcessor \<Rightarrow> Image \<Rightarrow> exn + EyeLandmarks option" where
  "processFrameBody pf p image' =
     (case imageToBitmap pf image' of
        None \<Rightarrow> Inr None
      | Some bitmap \<Rightarrow>
          (case preprocessBitmap pf bitmap of
             Inl e \<Rightarrow> Inl e
           | Inr preprocessedBitmap \<Rightarrow>
               (case inputBuffer p of
                  None \<Rightarrow> Inl OtherException
                | Some buf \<Rightarrow>
                    (case bitmapToInputBuffer pf preprocessedBitmap buf of
                       Inl e \<Rightarrow> Inl e
                     | Inr buf' \<Rightarrow>
                         (case runInference (p\<lparr>inputBuffer := Some buf'\<rparr>) of
                            Inl e \<Rightarrow> Inl e
                          | Inr (regressors, classificators) \<Rightarrow>
                              (case processBlazeFaceDetections regressors classificators bitmap
                                      (img_width image') (img_height image')
                                      (currentTimeMillis pf) (nanoTime pf) of
                                 Inl e \<Rightarrow> Inl e
                               | Inr landmarks \<Rightarrow> Inr (Some landmarks)))))))"

text \<open>The result of \<^verbatim>\<open>processFrame\<close>: \<open>Inr None\<close> is the return value
  \<^verbatim>\<open>null\<close>, and \<open>Inl\<close> would be an exception that leaves the function. The
  \<^verbatim>\<open>catch\<close> of lines 117 to 120 turns every exception of the body into the return
  value \<^verbatim>\<open>null\<close>.\<close>

definition processFrame :: "Platform \<Rightarrow> TensorFlowProcessor \<Rightarrow> Image \<Rightarrow> exn + EyeLandmarks option" where
  "processFrame pf p image' =
     (if \<not> isModelLoaded p \<or> interpreter p = None \<or> inputBuffer p = None then Inr None
      else
        (case processFrameBody pf p image' of
           Inl e \<Rightarrow> Inr None
         | Inr r \<Rightarrow> Inr r))"

section \<open>CameraModule.kt: processFrame\<close>

text \<open>
  The caller of \<^verbatim>\<open>TensorFlowProcessor.processFrame\<close> (lines 383 to 463): it builds the
  frame event, adds the landmarks when there are any, and sends it. \<open>None\<close> stands for
  an exception caught at line 460, after which no event is sent.
\<close>

record FrameEvent =
  ev_timestamp :: int
  ev_width :: int
  ev_height :: int
  ev_format :: string
  ev_eyeLandmarks :: "EyeLandmarks option"

definition cameraProcessFrame :: "Platform \<Rightarrow> TensorFlowProcessor option \<Rightarrow> Image \<Rightarrow> FrameEvent option" where
  "cameraProcessFrame pf tensorFlowProcessor image' =
     (case (case tensorFlowProcessor of
              None \<Rightarrow> Inr None
            | Some p \<Rightarrow> processFrame pf p image') of
        Inl e \<Rightarrow> None
      | Inr eyeLandmarks \<Rightarrow>
          Some \<lparr> ev_timestamp = currentTimeMillis pf,
                 ev_width = img_width image',
                 ev_height = img_height image',
                 ev_format = ''YUV_420_888'',
                 ev_eyeLandmarks = eyeLandmarks \<rparr>)"

section \<open>CalibrationScreen.tsx: calculateLinearTransform\<close>

datatype Position = Left | Center | Right

record CalibrationPoint =
  position :: Position
  gazeValues :: "number list"
  targetValue :: number

record CalibrationTransform =
  slope :: number
  intercept :: number

record CalibrationData =
  points :: "CalibrationPoint list"
  cal_timestamp :: int
  isComplete :: bool
  linearTransform :: "CalibrationTransform option"

text \<open>An element of \<^verbatim>\<open>averages\<close> (lines 297 to 300).\<close>

record Average =
  target :: number
  measured :: number

text \<open>\<^verbatim>\<open>Math.max(...xs)\<close> and \<^verbatim>\<open>Math.min(...xs)\<close>: \<open>-\<infinity>\<close> and \<open>\<infinity>\<close> on no
  argument, NaN when an argument is NaN.\<close>

definition Math_max :: "number list \<Rightarrow> number" where
  "Math_max xs = foldl fmax NInf xs"

definition Math_min :: "number list \<Rightarrow> number" where
  "Math_min xs = foldl fmin PInf xs"

definition identityTransform :: CalibrationTransform where
  "identityTransform = \<lparr> slope = Fin 1, intercept = Fin 0 \<rparr>"

definition averagesOf :: "CalibrationPoint list \<Rightarrow> Average list" where
  "averagesOf pts =
     map (\<lambda>point. \<lparr> target = targetValue point,
                     measured = fdiv (foldl (\<lambda>sum val. fadd sum val) (Fin 0) (gazeValues point))
                                     (Fin (real (length (gazeValues point)))) \<rparr>) pts"

definition validAveragesOf :: "CalibrationPoint list \<Rightarrow> Average list" where
  "validAveragesOf pts =
     filter (\<lambda>avg. \<not> isNaN (measured avg) \<and> isFinite (measured avg)) (averagesOf pts)"

definition calculateLinearTransform :: "CalibrationPoint list \<Rightarrow> CalibrationTransform" where
  "calculateLinearTransform pts =
     (if length pts \<noteq> 3 then identityTransform
      else
        (let validAverages = validAveragesOf pts
         in if length validAverages < 2 then identityTransform
            else
              (let n = Fin (real (length validAverages));
                   sumX = foldl (\<lambda>sum p. fadd sum (measured p)) (Fin 0) validAverages;
                   sumY = foldl (\<lambda>sum p. fadd sum (target p)) (Fin 0) validAverages;
                   sumXY = foldl (\<lambda>sum p. fadd sum (fmul (measured p) (target p))) (Fin 0)
                             validAverages;
                   sumX2 = foldl (\<lambda>sum p. fadd sum (fmul (measured p) (measured p))) (Fin 0)
                             validAverages;
                   denominator = fsub (fmul n sumX2) (fmul sumX sumX)
               in if flt (fabs denominator) (Fin (1 / 10 ^ 10)) then
                    (let measuredRange = fsub (Math_max (map measured validAverages))
                                              (Math_min (map measured validAverages));
                         slope' = (if fgt measuredRange (Fin 0) then fdiv (Fin 2) measuredRange
                                   else Fin 1);
                         intercept' = fmul (fdiv (fneg sumX) n) slope'
                     in \<lparr> slope = slope', intercept = intercept' \<rparr>)
                  else
                    (let slope' = fdiv (fsub (fmul n sumXY) (fmul sumX sumY)) denominator;
                         intercept' = fdiv (fsub sumY (fmul slope' sumX)) n
                     in if \<not> isFinite slope' \<or> \<not> isFinite intercept' then identityTransform
                        else \<lparr> slope = slope', intercept = intercept' \<rparr>))))"

section \<open>CalibrationScreen.tsx: completeCalibration\<close>

text \<open>
  The state of the screen that \<^verbatim>\<open>completeCalibration\<close> reads, the alert it shows and
  the store it writes. \<^verbatim>\<open>AsyncStorage\<close> is a map from keys to the stored records (the
  JSON text of a record is the storage layer's); \<open>setItemOk\<close> says whether
  \<^verbatim>\<open>AsyncStorage.setItem\<close> resolves or rejects.
\<close>

record ScreenState =
  currentStep :: Position
  frameCount :: nat
  isCollecting :: bool
  isCompleting :: bool
  calibrationData :: CalibrationData

datatype Alert =
    IncompleteCalibration "Position list"
  | InsufficientData "Position list"
  | CalibrationComplete CalibrationTransform
  | SaveError

type_synonym AsyncStorage = "string \<rightharpoonup> CalibrationData"

definition completeCalibration :: "ScreenState \<Rightarrow> int \<Rightarrow> bool \<Rightarrow> AsyncStorage \<Rightarrow> Alert option \<times> AsyncStorage" where
  "completeCalibration st now setItemOk storage =
     (if isCompleting st then (None, storage)
      else
        (let requiredPositions = [Left, Center, Right];
             collectedPositions = map position (points (calibrationData st));
             missingPositions = filter (\<lambda>pos. pos \<notin> set collectedPositions) requiredPositions
         in if 0 < length missingPositions
            then (Some (IncompleteCalibration missingPositions), storage)
            else
              (let insufficientPoints =
                     filter (\<lambda>p. length (gazeValues p) < 5) (points (calibrationData st))
               in if 0 < length insufficientPoints
                  then (Some (InsufficientData (map position insufficientPoints)), storage)
                  else
                    (let transform = calculateLinearTransform (points (calibrationData st));
                         finalCalibrationData =
                           (calibrationData st)\<lparr> isComplete := True,
                                                  linearTransform := Some transform,
                                                  cal_timestamp := now \<rparr>
                     in if setItemOk
                        then (Some (CalibrationComplete transform),
                              storage(''gazeCalibration'' \<mapsto> finalCalibrationData))
                        else (Some SaveError, storage)))))"

section \<open>CalibrationService.ts\<close>

record CalibrationService =
  svc_calibrationData :: "CalibrationData option"
  isLoaded :: bool

definition loadCalibration :: "CalibrationService \<Rightarrow> AsyncStorage \<Rightarrow> CalibrationService \<times> bool" where
  "loadCalibration svc storage =
     (case storage ''gazeCalibration'' of
        Some storedData \<Rightarrow>
          (svc\<lparr> svc_calibrationData := Some storedData, isLoaded := True \<rparr>, isComplete storedData)
      | None \<Rightarrow> (svc, False))"

definition isCalibrated :: "CalibrationService \<Rightarrow> bool" where
  "isCalibrated svc =
     (isLoaded svc
      \<and> (case svc_calibrationData svc of None \<Rightarrow> False | Some d \<Rightarrow> isComplete d)
      \<and> (case svc_calibrationData svc of None \<Rightarrow> False | Some d \<Rightarrow> linearTransform d \<noteq> None))"

definition applyCalibratedGaze :: "CalibrationService \<Rightarrow> number \<Rightarrow> number" where
  "applyCalibratedGaze svc rawGazeX' =
     (if \<not> isCalibrated svc then rawGazeX'
      else
        (case svc_calibrationData svc of
           None \<Rightarrow> rawGazeX'
         | Some d \<Rightarrow>
             (case linearTransform d of
                None \<Rightarrow> rawGazeX'
              | Some t \<Rightarrow>
                  (let calibratedGaze = fadd (fmul (slope t) rawGazeX') (intercept t)
                   in fmax (Fin (- 1)) (fmin (Fin 1) calibratedGaze)))))"

section \<open>Finite values\<close>

lemma fmin_Fin [simp]: "fmin (Fin a) (Fin b) = Fin (min a b)"
  by (simp add: fmin_def min_def)

lemma fmax_Fin [simp]: "fmax (Fin a) (Fin b) = Fin (max a b)"
  by (simp add: fmax_def max_def)

lemma fsub_Fin [simp]: "fsub (Fin a) (Fin b) = Fin (a - b)"
  by (simp add: fsub_def)

lemma fgt_Fin [simp]: "fgt (Fin a) (Fin b) = (b < a)"
  by (simp add: fgt_def)

lemma fle_Fin [simp]: "fle (Fin a) (Fin b) = (a \<le> b)"
  by (auto simp: fle_def)

section \<open>Properties of binary32 rounding\<close>

lemma rhe_floor_le: "\<lfloor>q\<rfloor> \<le> roundHalfEven q"
  by (simp add: roundHalfEven_def Let_def)

lemma rhe_le_ceiling: "roundHalfEven q \<le> \<lceil>q\<rceil>"
proof -
  have "\<lfloor>q\<rfloor> + 1 \<le> \<lceil>q\<rceil>" if "q - of_int \<lfloor>q\<rfloor> \<noteq> 0"
    using that by (metis ceiling_altdef diff_self eq_refl of_int_floor_cancel)
  moreover have "\<lfloor>q\<rfloor> \<le> \<lceil>q\<rceil>" by (simp add: floor_le_ceiling)
  ultimately show ?thesis
    by (auto simp: roundHalfEven_def Let_def)
qed

lemma rhe_of_int: "roundHalfEven (of_int n) = n"
  by (simp add: roundHalfEven_def)

lemma rhe_ge_int: "of_int n \<le> q \<Longrightarrow> n \<le> roundHalfEven q"
proof -
  assume "of_int n \<le> q"
  then have "n \<le> \<lfloor>q\<rfloor>" by (simp add: le_floor_iff)
  with rhe_floor_le [of q] show ?thesis by linarith
qed

lemma rhe_le_int: "q \<le> of_int n \<Longrightarrow> roundHalfEven q \<le> n"
proof -
  assume "q \<le> of_int n"
  then have "\<lceil>q\<rceil> \<le> n" by (simp add: ceiling_le_iff)
  with rhe_le_ceiling [of q] show ?thesis by linarith
qed

lemma rhe_err: "\<bar>of_int (roundHalfEven q) - q\<bar> \<le> 1 / 2"
proof -
  have "0 \<le> q - of_int \<lfloor>q\<rfloor>" "q - of_int \<lfloor>q\<rfloor> < 1" by linarith+
  then show ?thesis
    by (auto simp: roundHalfEven_def Let_def abs_le_iff)
qed


lemma rhe_eq: "of_int n - 1 / 2 < q \<Longrightarrow> q < of_int n + 1 / 2 \<Longrightarrow> roundHalfEven q = n"
proof -
  assume a: "of_int n - 1 / 2 < q" "q < of_int n + 1 / 2"
  show ?thesis
  proof (cases "of_int n \<le> q")
    case True
    then have f: "\<lfloor>q\<rfloor> = n" using a by (intro floor_unique) linarith+
    then show ?thesis using a by (simp add: roundHalfEven_def Let_def)
  next
    case False
    then have f: "\<lfloor>q\<rfloor> = n - 1" using a by (intro floor_unique) (simp, linarith+)
    then show ?thesis using a False by (simp add: roundHalfEven_def Let_def)
  qed
qed

lemma two_powr_powi: "(2::real) powr real_of_int k = 2 powi k"
  by (rule powr_real_of_int') simp_all

lemma two_powr_powi_Suc: "(2::real) powr (real_of_int k + 1) = 2 powi (k + 1)"
  using two_powr_powi [of "k + 1"] by simp

lemma floor_log2_bounds:
  assumes "0 < x"
  shows "2 powi \<lfloor>log 2 x\<rfloor> \<le> x" and "x < 2 powi (\<lfloor>log 2 x\<rfloor> + 1)"
  using floor_log_eq_powr_iff [of x 2 "\<lfloor>log 2 x\<rfloor>"] assms
  by (simp_all add: two_powr_powi two_powr_powi_Suc)

lemma floor_log2_eq:
  assumes "2 powi L \<le> x" "x < 2 powi (L + 1)"
  shows "\<lfloor>log 2 x\<rfloor> = L"
proof -
  have "0 < (2::real) powi L" by (simp add: zero_less_power_int)
  with assms have "0 < x" by linarith
  then show ?thesis
    using floor_log_eq_powr_iff [of x 2 L] assms by (simp add: two_powr_powi two_powr_powi_Suc)
qed

lemma two_powi_less_imp: "(2::real) powi a < 2 powi b \<Longrightarrow> a < b"
proof (rule ccontr)
  assume lt: "(2::real) powi a < 2 powi b" and "\<not> a < b"
  then have "b \<le> a" by simp
  then have "(2::real) powi b \<le> 2 powi a" by (intro power_int_increasing) simp_all
  with lt show False by simp
qed

lemma two_powi_pos [simp]: "0 < (2::real) powi k"
  by (simp add: zero_less_power_int)

lemma two_powi_diff: "(2::real) powi a / 2 powi b = 2 powi (a - b)"
  by (simp add: power_int_diff)

lemma two_powi_nat: "0 \<le> k \<Longrightarrow> (2::real) powi k = of_int (2 ^ nat k)"
  by (simp add: power_int_def)

lemma f32_Fin:
  assumes "r \<noteq> 0" "\<bar>r\<bar> < 2 ^ 128 - 2 ^ 103"
  shows "f32 r = Fin (of_int (roundHalfEven (r / 2 powi ulpExp r)) * 2 powi ulpExp r)"
  using assms by (simp add: f32_def Let_def abs_less_iff not_le)

lemma f32_eval:
  assumes "2 powi L \<le> \<bar>r\<bar>" "\<bar>r\<bar> < 2 powi (L + 1)" "\<bar>r\<bar> < 2 ^ 128 - 2 ^ 103"
    and "E = max L (- 126) - 23" and "roundHalfEven (r / 2 powi E) = N"
  shows "f32 r = Fin (of_int N * 2 powi E)"
proof -
  have "0 < \<bar>r\<bar>" using assms(1) two_powi_pos [of L] by linarith
  then have nz: "r \<noteq> 0" by simp
  have "\<lfloor>log 2 \<bar>r\<bar>\<rfloor> = L" using assms(1,2) by (rule floor_log2_eq)
  then have "ulpExp r = E" by (simp add: ulpExp_def assms(4))
  with f32_Fin [OF nz assms(3)] assms(5) show ?thesis by simp
qed

lemma f32_error:
  assumes "\<bar>r\<bar> < 2 ^ 128 - 2 ^ 103"
  shows "\<exists>v. f32 r = Fin v \<and> \<bar>v - r\<bar> \<le> \<bar>r\<bar> / 2 ^ 24 + 1 / 2 ^ 150"
proof (cases "r = 0")
  case True
  then show ?thesis by (simp add: f32_def)
next
  case False
  define E where "E = ulpExp r"
  define u :: real where "u = 2 powi E"
  define v where "v = of_int (roundHalfEven (r / u)) * u"
  have u: "0 < u" by (simp add: u_def)
  have fv: "f32 r = Fin v"
    using f32_Fin [OF False assms] by (simp add: v_def u_def E_def)
  have "v - r = (of_int (roundHalfEven (r / u)) - r / u) * u"
    using u by (simp add: v_def left_diff_distrib)
  then have "\<bar>v - r\<bar> = \<bar>of_int (roundHalfEven (r / u)) - r / u\<bar> * u"
    using u by (simp add: abs_mult)
  also have "\<dots> \<le> 1 / 2 * u"
    using rhe_err [of "r / u"] u by (intro mult_right_mono) simp_all
  finally have err: "\<bar>v - r\<bar> \<le> u / 2" by simp
  have pos: "0 < \<bar>r\<bar>" using False by simp
  have ub: "u \<le> \<bar>r\<bar> / 2 ^ 23 + 1 / 2 ^ 149"
  proof (cases "- 126 \<le> \<lfloor>log 2 \<bar>r\<bar>\<rfloor>")
    case True
    then have "E = \<lfloor>log 2 \<bar>r\<bar>\<rfloor> - 23" by (simp add: E_def ulpExp_def)
    then have "u = 2 powi \<lfloor>log 2 \<bar>r\<bar>\<rfloor> / 2 ^ 23"
      by (simp add: u_def power_int_diff)
    also have "\<dots> \<le> \<bar>r\<bar> / 2 ^ 23"
      using floor_log2_bounds(1) [OF pos] by (simp add: divide_right_mono)
    finally show ?thesis by simp
  next
    case False
    then have "E = - 149" by (simp add: E_def ulpExp_def)
    then have "u = 1 / 2 ^ 149" by (simp add: u_def power_int_minus_divide)
    then show ?thesis by simp
  qed
  from err ub have "\<bar>v - r\<bar> \<le> \<bar>r\<bar> / 2 ^ 24 + 1 / 2 ^ 150" by simp
  with fv show ?thesis by blast
qed


lemma f32_le_pow2:
  assumes "0 \<le> r" "r \<le> 2 powi k" "- 149 \<le> k" "k \<le> 127"
  shows "\<exists>v. f32 r = Fin v \<and> 0 \<le> v \<and> v \<le> 2 powi k"
proof (cases "r = 0")
  case True
  then show ?thesis by (simp add: f32_def less_imp_le)
next
  case False
  with assms(1) have pos: "0 < r" by simp
  have "(2::real) powi k \<le> 2 powi 127" using assms(4) by (intro power_int_increasing) simp_all
  then have "r \<le> 2 ^ 127" using assms(2) by simp
  then have thr: "\<bar>r\<bar> < 2 ^ 128 - 2 ^ 103" using pos by simp
  define L where "L = \<lfloor>log 2 \<bar>r\<bar>\<rfloor>"
  define E where "E = ulpExp r"
  define u :: real where "u = 2 powi E"
  define v where "v = of_int (roundHalfEven (r / u)) * u"
  have u: "0 < u" by (simp add: u_def)
  have fv: "f32 r = Fin v"
    using f32_Fin [OF False thr] by (simp add: v_def u_def E_def)
  have "2 powi L \<le> r" using floor_log2_bounds(1) [of "\<bar>r\<bar>"] pos by (simp add: L_def)
  moreover have "(2::real) powi k < 2 powi (k + 1)"
    using two_powi_pos [of k] by (simp add: power_int_add)
  ultimately have "(2::real) powi L < 2 powi (k + 1)"
    using assms(2) by linarith
  then have "L \<le> k" using two_powi_less_imp [of L "k + 1"] by simp
  then have Ek: "E \<le> k" using assms(3) by (simp add: E_def ulpExp_def L_def)
  have "2 powi k / u = of_int (2 ^ nat (k - E))"
    using Ek by (simp add: u_def two_powi_diff two_powi_nat)
  moreover have "r / u \<le> 2 powi k / u" using assms(2) u by (simp add: divide_right_mono)
  ultimately have "roundHalfEven (r / u) \<le> 2 ^ nat (k - E)"
    by (intro rhe_le_int) simp
  then have "of_int (roundHalfEven (r / u)) \<le> (of_int (2 ^ nat (k - E)) :: real)"
    by (simp only: of_int_le_iff)
  then have "v \<le> of_int (2 ^ nat (k - E)) * u"
    unfolding v_def using u by (intro mult_right_mono) simp_all
  also have "\<dots> = 2 powi k"
    using \<open>2 powi k / u = of_int (2 ^ nat (k - E))\<close> u by (simp add: field_simps)
  finally have vle: "v \<le> 2 powi k" .
  have "0 \<le> r / u" using pos u by simp
  then have "0 \<le> roundHalfEven (r / u)" by (intro rhe_ge_int) simp
  then have "0 \<le> v" using u by (simp add: v_def)
  with fv vle show ?thesis by blast
qed

lemma f32_exact:
  assumes "r = of_int m * 2 powi e" "\<bar>m\<bar> < 2 ^ 24" "- 149 \<le> e" "e \<le> 104"
  shows "f32 r = Fin r"
proof (cases "m = 0")
  case True
  then show ?thesis by (simp add: assms(1) f32_def)
next
  case False
  then have m1: "1 \<le> \<bar>m\<bar>" by simp
  have a: "\<bar>r\<bar> = of_int \<bar>m\<bar> * 2 powi e" by (simp add: assms(1) abs_mult)
  have nz: "r \<noteq> 0" using False by (simp add: assms(1))
  have "\<bar>m\<bar> \<le> 2 ^ 24 - 1" using assms(2) by simp
  then have "(of_int \<bar>m\<bar> :: real) \<le> of_int (2 ^ 24 - 1)" by (simp only: of_int_le_iff)
  then have "of_int \<bar>m\<bar> \<le> (2 ^ 24 - 1 :: real)" by simp
  then have "\<bar>r\<bar> \<le> (2 ^ 24 - 1) * 2 powi e" unfolding a by (intro mult_right_mono) simp_all
  also have "\<dots> \<le> (2 ^ 24 - 1) * 2 powi 104"
    using assms(4) by (intro mult_left_mono power_int_increasing) simp_all
  also have "\<dots> < 2 ^ 128 - 2 ^ 103" by simp
  finally have thr: "\<bar>r\<bar> < 2 ^ 128 - 2 ^ 103" .
  define L where "L = \<lfloor>log 2 \<bar>r\<bar>\<rfloor>"
  define E where "E = ulpExp r"
  have pos: "0 < \<bar>r\<bar>" using nz by simp
  have "(1::real) \<le> of_int \<bar>m\<bar>" using m1 by (simp only: of_int_1_le_iff)
  then have "1 * 2 powi e \<le> of_int \<bar>m\<bar> * (2::real) powi e"
    by (intro mult_right_mono) simp_all
  then have "(2::real) powi e \<le> \<bar>r\<bar>" unfolding a by simp
  with floor_log2_bounds(2) [OF pos] have "(2::real) powi e < 2 powi (L + 1)" by (simp add: L_def)
  then have eL: "e \<le> L" using two_powi_less_imp [of e "L + 1"] by simp
  have "(of_int \<bar>m\<bar> :: real) < of_int (2 ^ 24)" using assms(2) by (simp only: of_int_less_iff)
  then have "(of_int \<bar>m\<bar> :: real) < 2 ^ 24" by simp
  then have "\<bar>r\<bar> < 2 ^ 24 * 2 powi e"
    unfolding a by (intro mult_strict_right_mono) simp_all
  also have "\<dots> = 2 powi (e + 24)" by (simp add: power_int_add)
  finally have "(2::real) powi L < 2 powi (e + 24)"
    using floor_log2_bounds(1) [OF pos] by (simp add: L_def)
  then have "L < e + 24" by (rule two_powi_less_imp)
  then have Ee: "E \<le> e" using assms(3) by (simp add: E_def ulpExp_def L_def)
  have "r / 2 powi E = of_int m * 2 powi (e - E)"
    by (simp add: assms(1) two_powi_diff [symmetric])
  also have "\<dots> = of_int (m * 2 ^ nat (e - E))"
    using Ee by (simp add: two_powi_nat)
  finally have q: "r / 2 powi E = of_int (m * 2 ^ nat (e - E))" .
  have "f32 r = Fin (of_int (roundHalfEven (r / 2 powi E)) * 2 powi E)"
    using f32_Fin [OF nz thr] by (simp add: E_def)
  also have "of_int (roundHalfEven (r / 2 powi E)) * 2 powi E = r / 2 powi E * 2 powi E"
    unfolding q rhe_of_int ..
  also have "\<dots> = r" by simp
  finally show ?thesis .
qed


lemma f32_int: "\<bar>m\<bar> < 2 ^ 24 \<Longrightarrow> f32 (of_int m) = Fin (of_int m)"
  using f32_exact [of "of_int m" m 0] by simp

lemma f32_near_one:
  assumes "0 \<le> e" "e < 1 / 2 ^ 24"
  shows "f32 (1 + e) = Fin 1"
proof -
  have "roundHalfEven ((1 + e) / 2 powi (- 23)) = 2 ^ 23"
    using assms by (intro rhe_eq) (simp_all add: power_int_minus_divide field_simps)
  from f32_eval [of 0 "1 + e" "- 23", OF _ _ _ _ this] assms
  show ?thesis by (simp add: power_int_minus_divide)
qed

lemma f32_near_2p24:
  assumes "2 ^ 24 - 1 / 2 < r" "r < 2 ^ 24 + 1"
  shows "f32 r = Fin (2 ^ 24)"
proof (cases "2 ^ 24 \<le> r")
  case True
  have "roundHalfEven (r / 2 powi 1) = 2 ^ 23"
    using assms True by (intro rhe_eq) simp_all
  from f32_eval [of 24 r 1, OF _ _ _ _ this] assms True
  show ?thesis by simp
next
  case False
  have "roundHalfEven (r / 2 powi 0) = 2 ^ 24"
    using assms False by (intro rhe_eq) simp_all
  from f32_eval [of 23 r 0, OF _ _ _ _ this] assms False
  show ?thesis by simp
qed


lemma f32_not_NaN [simp]: "f32 r \<noteq> NaN"
  by (simp add: f32_def Let_def)

lemma r32_NaN_iff [simp]: "r32 x = NaN \<longleftrightarrow> x = NaN"
  by (cases x) simp_all

lemma f32_numeral: "(numeral n :: int) < 2 ^ 24 \<Longrightarrow> f32 (numeral n) = Fin (numeral n)"
  using f32_int [of "numeral n"] by simp

lemma f32_one [simp]: "f32 1 = Fin 1"
  using f32_int [of 1] by simp

lemma f32_threshold: "f32 0.001 = Fin (8589935 / 2 ^ 33)"
proof -
  have "roundHalfEven (0.001 / 2 powi (- 33)) = 8589935"
    by (intro rhe_eq) (simp_all add: power_int_minus_divide)
  from f32_eval [of "- 10" "0.001" "- 33", OF _ _ _ _ this]
  show ?thesis by (simp add: power_int_minus_divide)
qed




section \<open>Properties of calculateNormalizedGaze\<close>

lemma fsub32_not_NaN: "fsub32 (Fin a) (Fin b) \<noteq> NaN"
  by (simp add: fsub32_def)








section \<open>Properties of the detection decoder\<close>

lemma fle_not_fgt: "fle a b \<Longrightarrow> \<not> fgt a b"
  by (simp add: fle_def fgt_def)

lemma scan_no_detection:
  "\<forall>l\<in>set cls. \<not> fgt (sigmoid l) confidenceThreshold \<Longrightarrow>
   fst (foldl scanStep (- 1, b) (enumerate n cls)) = - 1"
  by (induction cls arbitrary: b n) (simp_all add: scanStep_def Let_def)

lemma scan_unchanged:
  "\<forall>l\<in>set cls. \<not> fgt (sigmoid l) b \<Longrightarrow>
   foldl scanStep (i, b) (enumerate n cls) = (i, b)"
  by (induction cls arbitrary: n) (simp_all add: scanStep_def Let_def)

lemma scan_best_from:
  "foldl scanStep (i, b) (enumerate n cls) = (i', b') \<Longrightarrow> b' = b \<or> b' \<in> sigmoid ` set cls"
proof (induction cls arbitrary: i b n)
  case Nil
  then show ?case by simp
next
  case (Cons c cls)
  obtain j d where st: "scanStep (i, b) (n, c) = (j, d)" by (cases "scanStep (i, b) (n, c)")
  then have d: "d = b \<or> d = sigmoid c"
    by (auto simp: scanStep_def Let_def split: if_splits)
  from Cons.prems st have "foldl scanStep (j, d) (enumerate (Suc n) cls) = (i', b')" by simp
  from Cons.IH [OF this] d show ?case by auto
qed

lemma flt_irrefl: "\<not> flt a a"
  by (cases a) simp_all
lemma flt_asym: "flt a b \<Longrightarrow> \<not> flt b a"
  by (cases a; cases b) simp_all
lemma flt_trans: "flt a b \<Longrightarrow> flt b c \<Longrightarrow> flt a c"
  by (cases a; cases b; cases c) simp_all

lemma f32_confidenceThreshold: "confidenceThreshold = Fin (10737418 / 2 ^ 30)"
proof -
  have "roundHalfEven (0.01 / 2 powi (- 30)) = 10737418"
    by (intro rhe_eq) (simp_all add: power_int_minus_divide)
  from f32_eval [of "- 7" "0.01" "- 30", OF _ _ _ _ this]
  show ?thesis by (simp add: confidenceThreshold_def power_int_minus_divide)
qed

lemma bestDetection_max_confidence:
  assumes k: "k < length cls"
    and mx: "\<forall>i<length cls. i \<noteq> k \<longrightarrow> flt (sigmoid (cls ! i)) (sigmoid (cls ! k))"
    and acc: "fgt (sigmoid (cls ! k)) confidenceThreshold"
  shows "bestDetection cls = (int k, sigmoid (cls ! k))"
proof -
  let ?c = "cls ! k"
  let ?pre = "take k cls"
  let ?post = "drop (Suc k) cls"
  have split: "cls = ?pre @ ?c # ?post" using k by (rule id_take_nth_drop)
  have pre_lt: "\<forall>l\<in>set ?pre. flt (sigmoid l) (sigmoid ?c)"
  proof
    fix l assume "l \<in> set ?pre"
    then obtain i where "i < length ?pre" "?pre ! i = l" by (auto simp: in_set_conv_nth)
    then have "i < k" "cls ! i = l" using k by auto
    with mx k show "flt (sigmoid l) (sigmoid ?c)" by auto
  qed
  have post_lt: "\<forall>l\<in>set ?post. flt (sigmoid l) (sigmoid ?c)"
  proof
    fix l assume "l \<in> set ?post"
    then obtain i where i: "i < length ?post" "?post ! i = l" by (auto simp: in_set_conv_nth)
    then have "Suc k + i < length cls" "cls ! (Suc k + i) = l" using k by auto
    with mx show "flt (sigmoid l) (sigmoid ?c)" by auto
  qed
  obtain j d where pre: "foldl scanStep (- 1, Fin 0) (enumerate 0 ?pre) = (j, d)"
    by (cases "foldl scanStep (- 1, Fin 0) (enumerate 0 ?pre)")
  from scan_best_from [OF pre] have "d = Fin 0 \<or> d \<in> sigmoid ` set ?pre" .
  moreover have "flt (Fin 0) (sigmoid ?c)"
  proof -
    from acc have "flt confidenceThreshold (sigmoid ?c)" by (simp add: fgt_def)
    moreover have "flt (Fin 0) confidenceThreshold" by (simp add: f32_confidenceThreshold)
    ultimately show ?thesis by (rule flt_trans [rotated])
  qed
  ultimately have dlt: "flt d (sigmoid ?c)" using pre_lt by auto
  have step: "scanStep (j, d) (k, ?c) = (int k, sigmoid ?c)"
    using dlt acc by (simp add: scanStep_def Let_def fgt_def)
  have post: "foldl scanStep (int k, sigmoid ?c) (enumerate (Suc k) ?post) = (int k, sigmoid ?c)"
    using post_lt by (intro scan_unchanged) (auto simp: fgt_def dest: flt_asym)
  have len: "length ?pre = k" using k by simp
  have "bestDetection cls = foldl scanStep (- 1, Fin 0) (enumerate 0 (?pre @ ?c # ?post))"
    unfolding bestDetection_def using split by simp
  also have "\<dots> = (int k, sigmoid ?c)"
    using pre step post len by (simp add: enumerate_append_eq)
  finally show ?thesis .
qed

lemma exp_100_overflow: "(2::real) ^ 128 \<le> exp 100"
proof -
  have "(5 / 4 :: real) \<le> exp (1 / 4)"
    using exp_ge_add_one_self [of "1 / 4"] by simp
  then have "(5 / 4 :: real) ^ 400 \<le> exp (1 / 4) ^ 400"
    by (intro power_mono) simp_all
  also have "exp (1 / 4 :: real) ^ 400 = exp (of_nat 400 * (1 / 4))"
    by (rule exp_of_nat_mult [symmetric])
  also have "(of_nat 400 * (1 / 4) :: real) = 100" by simp
  finally have a: "(5 / 4 :: real) ^ 400 \<le> exp 100" .
  have "(2::real) ^ 8 \<le> (5 / 4) ^ 25" by (simp add: power_divide)
  then have "((2::real) ^ 8) ^ 16 \<le> ((5 / 4) ^ 25) ^ 16"
    by (intro power_mono) simp_all
  then have "(2::real) ^ 128 \<le> (5 / 4) ^ 400"
    by (simp only: power_mult [symmetric]) simp
  then show ?thesis using a by (rule order_trans)
qed

lemma sigmoid_NInf: "sigmoid NInf = Fin 0"
  by (simp add: sigmoid_def fexp32_def fadd32_def fdiv32_def f32_def)

lemma sigmoid_underflow:
  assumes "x \<le> - 100"
  shows "sigmoid (Fin x) = Fin 0"
proof -
  have "(2::real) ^ 128 - 2 ^ 103 \<le> 2 ^ 128" by simp
  also note exp_100_overflow
  also have "exp 100 \<le> exp (- x)" using assms by simp
  finally have "2 ^ 128 - 2 ^ 103 \<le> exp (- x)" .
  moreover have "exp (- x) \<noteq> 0" by simp
  ultimately have "f32 (exp (- x)) = PInf" by (simp add: f32_def)
  then show ?thesis
    by (simp add: sigmoid_def fexp32_def fadd32_def fdiv32_def f32_def)
qed

lemma exp_25: "exp (- 25 :: real) \<le> 1 / 2 ^ 25"
proof -
  have "(2::real) \<le> exp 1" using exp_ge_add_one_self [of 1] by simp
  then have "(2::real) ^ 25 \<le> exp 1 ^ 25" by (intro power_mono) simp_all
  also have "exp (1::real) ^ 25 = exp (of_nat 25 * 1)" by (rule exp_of_nat_mult [symmetric])
  finally have "(2::real) ^ 25 \<le> exp 25" by simp
  then have "1 / exp (25::real) \<le> 1 / 2 ^ 25"
    by (intro divide_left_mono) simp_all
  then show ?thesis by (simp add: exp_minus inverse_eq_divide)
qed

lemma sigmoid_saturated:
  assumes "25 \<le> x"
  shows "sigmoid (Fin x) = Fin 1"
proof -
  have "exp (- x) \<le> exp (- 25)" using assms by simp
  also note exp_25
  also have "(1 / 2 ^ 25 :: real) = 2 powi (- 25)" by (simp add: power_int_minus_divide)
  finally have le: "exp (- x) \<le> 2 powi (- 25)" .
  have "0 \<le> exp (- x)" by simp
  from f32_le_pow2 [OF this le] obtain e where
    e: "f32 (exp (- x)) = Fin e" "0 \<le> e" "e \<le> 2 powi (- 25)" by auto
  then have "e < 1 / 2 ^ 24" by (simp add: power_int_minus_divide)
  with e(2) have "f32 (1 + e) = Fin 1" by (rule f32_near_one)
  then show ?thesis
    using e(1) by (simp add: sigmoid_def fexp32_def fadd32_def fdiv32_def)
qed

lemma f32_half: "f32 (1 / 2) = Fin (1 / 2)"
  by (rule f32_exact [of _ 1 "- 1"]) (simp_all add: power_int_minus_divide)

lemma sigmoid_zero: "sigmoid (Fin 0) = Fin (1 / 2)"
  by (simp add: sigmoid_def fexp32_def fadd32_def fdiv32_def f32_numeral f32_half)

text \<open>
  C5. When the sigmoid confidence of every logit is at most the acceptance threshold 0.01,
  the decoder returns the no-detection result as a value (no exception): its confidence
  is 0, every landmark position is the origin and it carries no gaze data.
\<close>

theorem no_detection_sentinel:
  assumes "\<forall>l\<in>set classificators. fle (sigmoid l) confidenceThreshold"
  shows "processBlazeFaceDetections regressors classificators bitmap imageWidth imageHeight t ns
           = Inr (createNoFaceResult t ns)
         \<and> confidence (createNoFaceResult t ns) = Fin 0
         \<and> gazeData (createNoFaceResult t ns) = None
         \<and> iris (leftEye (createNoFaceResult t ns)) = \<lparr> pt_x = Fin 0, pt_y = Fin 0 \<rparr>
         \<and> innerCorner (leftEye (createNoFaceResult t ns)) = \<lparr> pt_x = Fin 0, pt_y = Fin 0 \<rparr>
         \<and> outerCorner (leftEye (createNoFaceResult t ns)) = \<lparr> pt_x = Fin 0, pt_y = Fin 0 \<rparr>
         \<and> iris (rightEye (createNoFaceResult t ns)) = \<lparr> pt_x = Fin 0, pt_y = Fin 0 \<rparr>
         \<and> innerCorner (rightEye (createNoFaceResult t ns)) = \<lparr> pt_x = Fin 0, pt_y = Fin 0 \<rparr>
         \<and> outerCorner (rightEye (createNoFaceResult t ns)) = \<lparr> pt_x = Fin 0, pt_y = Fin 0 \<rparr>"
proof -
  from assms have "\<forall>l\<in>set classificators. \<not> fgt (sigmoid l) confidenceThreshold"
    by (auto dest: fle_not_fgt)
  then have "fst (bestDetection classificators) = - 1"
    unfolding bestDetection_def by (rule scan_no_detection)
  then have "decodeFace regressors classificators imageWidth imageHeight = Inr None"
    by (cases "bestDetection classificators") (simp add: decodeFace_def)
  then show ?thesis
    by (simp add: processBlazeFaceDetections_def createNoFaceResult_def)
qed

theorem no_detection_sentinel_witness:
  "processBlazeFaceDetections [] [Fin (- 100), NInf, Fin (- 250)]
      \<lparr> bmp_width = 0, bmp_height = 0, bmp_pixels = (\<lambda>x y. 0) \<rparr> 640 480 1 2
     = Inr (createNoFaceResult 1 2)"
proof -
  have "\<forall>l\<in>set [Fin (- 100), NInf, Fin (- 250)]. fle (sigmoid l) confidenceThreshold"
    using sigmoid_underflow [of "- 100"] sigmoid_underflow [of "- 250"]
    by (simp add: sigmoid_NInf f32_confidenceThreshold)
  from no_detection_sentinel [OF this] show ?thesis by blast
qed

text \<open>
  C6 (as amended). When the confidence of one detection, at index \<open>k\<close>, is strictly above
  the confidence of every other one (the sigmoid as \<^verbatim>\<open>Float\<close> arithmetic computes it)
  and above the acceptance threshold, the decoded face box is the winning regressor row's
  first four floats \<open>(centerX, centerY, width, height)\<close>, scaled by \<open>imageWidth / 128\<close> in
  X and \<open>imageHeight / 128\<close> in Y, the centre moved to the top-left corner by subtracting
  half the scaled width and height.
\<close>

theorem decodeFace_max_confidence:
  assumes "k < length classificators"
    and "\<forall>i<length classificators. i \<noteq> k \<longrightarrow>
           flt (sigmoid (classificators ! i)) (sigmoid (classificators ! k))"
    and "fgt (sigmoid (classificators ! k)) confidenceThreshold"
    and "k < length regressors"
    and "regressors ! k = centerX # centerY # width # height # rest"
  shows "decodeFace regressors classificators imageWidth imageHeight =
           Inr (Some (sigmoid (classificators ! k),
             \<lparr> faceLeft = fsub32 (fmul32 centerX (fdiv32 (toFloat32 imageWidth) (Fin 128)))
                              (fdiv32 (fmul32 width (fdiv32 (toFloat32 imageWidth) (Fin 128))) (Fin 2)),
               faceTop = fsub32 (fmul32 centerY (fdiv32 (toFloat32 imageHeight) (Fin 128)))
                             (fdiv32 (fmul32 height (fdiv32 (toFloat32 imageHeight) (Fin 128))) (Fin 2)),
               faceWidth = fmul32 width (fdiv32 (toFloat32 imageWidth) (Fin 128)),
               faceHeight = fmul32 height (fdiv32 (toFloat32 imageHeight) (Fin 128)) \<rparr>))"
proof -
  have "bestDetection classificators = (int k, sigmoid (classificators ! k))"
    using assms(1-3) by (rule bestDetection_max_confidence)
  then show ?thesis
    using assms(4,5) by (simp add: decodeFace_def faceBox_def Let_def)
qed

lemma example_scan:
  "bestDetection [Fin 0, Fin 30, NInf] = (1, Fin 1)"
proof -
  have s: "sigmoid (Fin 30) = Fin 1" by (rule sigmoid_saturated) simp
  have "bestDetection [Fin 0, Fin 30, NInf] = (int 1, sigmoid ([Fin 0, Fin 30, NInf] ! 1))"
    by (rule bestDetection_max_confidence)
       (simp_all add: less_Suc_eq s sigmoid_zero sigmoid_NInf f32_confidenceThreshold)
  then show ?thesis by (simp add: s)
qed

lemma example_box:
  "faceBox [Fin 64, Fin 32, Fin 32, Fin 16, Fin 7] 640 640 =
     Inr \<lparr> faceLeft = Fin 240, faceTop = Fin 120, faceWidth = Fin 160, faceHeight = Fin 80 \<rparr>"
  by (simp add: faceBox_def Let_def toFloat32_def fdiv32_def fmul32_def fsub32_def f32_numeral)

theorem decodeFace_max_confidence_witness:
  "decodeFace [[Fin 1, Fin 1, Fin 1, Fin 1], [Fin 64, Fin 32, Fin 32, Fin 16, Fin 7], []]
      [Fin 0, Fin 30, NInf] 640 640 =
     Inr (Some (Fin 1,
       \<lparr> faceLeft = Fin 240, faceTop = Fin 120, faceWidth = Fin 160, faceHeight = Fin 80 \<rparr>))"
proof -
  have s: "sigmoid (Fin 30) = Fin 1" by (rule sigmoid_saturated) simp
  have mx: "\<forall>i<length [Fin 0, Fin 30, NInf]. i \<noteq> 1 \<longrightarrow>
              flt (sigmoid ([Fin 0, Fin 30, NInf] ! i)) (sigmoid ([Fin 0, Fin 30, NInf] ! 1))"
    by (simp add: less_Suc_eq s sigmoid_zero sigmoid_NInf)
  have acc: "fgt (sigmoid ([Fin 0, Fin 30, NInf] ! 1)) confidenceThreshold"
    by (simp add: s f32_confidenceThreshold)
  from decodeFace_max_confidence [where k = 1 and classificators = "[Fin 0, Fin 30, NInf]"
      and regressors = "[[Fin 1, Fin 1, Fin 1, Fin 1], [Fin 64, Fin 32, Fin 32, Fin 16, Fin 7], []]"
      and centerX = "Fin 64" and centerY = "Fin 32" and width = "Fin 32" and height = "Fin 16"
      and rest = "[Fin 7]" and imageWidth = 640 and imageHeight = 640, OF _ mx acc]
  show ?thesis
    by (simp add: s toFloat32_def fdiv32_def fmul32_def fsub32_def f32_numeral)
qed

text \<open>
  C6 as stated fails: the logits 30 and 40 are different, 40 at index 1 is the single
  maximal logit, and both have the confidence \<open>1.0\<close> in \<^verbatim>\<open>Float\<close> arithmetic; the
  strict comparison of line 171 keeps index 0, and the decoded box is that of row 0, not
  the box \<open>(48, 48, 32, 32)\<close> of row 1.
\<close>

theorem decodeFace_saturation_counterexample:
  "flt (Fin 30) (Fin 40)
   \<and> decodeFace [[Fin 0, Fin 0, Fin 0, Fin 0], [Fin 64, Fin 64, Fin 32, Fin 32]]
        [Fin 30, Fin 40] 128 128 =
       Inr (Some (Fin 1,
         \<lparr> faceLeft = Fin 0, faceTop = Fin 0, faceWidth = Fin 0, faceHeight = Fin 0 \<rparr>))
   \<and> faceBox [Fin 64, Fin 64, Fin 32, Fin 32] 128 128 =
       Inr \<lparr> faceLeft = Fin 48, faceTop = Fin 48, faceWidth = Fin 32, faceHeight = Fin 32 \<rparr>"
proof -
  have s: "sigmoid (Fin 30) = Fin 1" "sigmoid (Fin 40) = Fin 1"
    by (rule sigmoid_saturated, simp)+
  have b: "bestDetection [Fin 30, Fin 40] = (0, Fin 1)"
    by (simp add: bestDetection_def scanStep_def Let_def s f32_confidenceThreshold)
  have z: "f32 0 = Fin 0" by (simp add: f32_def)
  show ?thesis
    by (simp add: decodeFace_def b faceBox_def Let_def toFloat32_def fdiv32_def fmul32_def
          fsub32_def f32_numeral z)
qed

section \<open>Properties of the eye region\<close>




section \<open>Properties of processFrame\<close>

text \<open>
  C8 (as amended). When the model is not loaded, the interpreter is absent or inference
  throws on the frame at hand, \<^verbatim>\<open>processFrame\<close> returns \<^verbatim>\<open>null\<close> to its caller and
  raises nothing: it returns no \<^verbatim>\<open>EyeLandmarks\<close> value, neither a gaze estimate nor the
  no-face result, and the caller sends the frame event without landmarks.
\<close>

theorem processFrame_unavailable:
  assumes "\<not> isModelLoaded p \<or> interpreter p = None
           \<or> (\<exists>run. interpreter p = Some run
                \<and> (\<forall>bitmap pre buf buf'.
                      imageToBitmap pf image' = Some bitmap \<longrightarrow>
                      preprocessBitmap pf bitmap = Inr pre \<longrightarrow>
                      inputBuffer p = Some buf \<longrightarrow>
                      bitmapToInputBuffer pf pre buf = Inr buf' \<longrightarrow>
                      (\<exists>e. run buf' = Inl e)))"
  shows "processFrame pf p image' = Inr None
       \<and> cameraProcessFrame pf (Some p) image' =
           Some \<lparr> ev_timestamp = currentTimeMillis pf, ev_width = img_width image',
                  ev_height = img_height image', ev_format = ''YUV_420_888'',
                  ev_eyeLandmarks = None \<rparr>"
proof -
  have r: "processFrame pf p image' = Inr None"
  proof (cases "\<not> isModelLoaded p \<or> interpreter p = None \<or> inputBuffer p = None")
    case True
    then show ?thesis by (simp add: processFrame_def)
  next
    case False
    with assms obtain run where run: "interpreter p = Some run"
      and throws: "\<And>bitmap pre buf buf'.
                      imageToBitmap pf image' = Some bitmap \<Longrightarrow>
                      preprocessBitmap pf bitmap = Inr pre \<Longrightarrow>
                      inputBuffer p = Some buf \<Longrightarrow>
                      bitmapToInputBuffer pf pre buf = Inr buf' \<Longrightarrow>
                      \<exists>e. run buf' = Inl e"
      by blast
    from False obtain buf where buf: "inputBuffer p = Some buf" by auto
    have "processFrameBody pf p image' = Inr None \<or> (\<exists>e. processFrameBody pf p image' = Inl e)"
    proof (cases "imageToBitmap pf image'")
      case None
      then show ?thesis by (simp add: processFrameBody_def)
    next
      case (Some bitmap)
      show ?thesis
      proof (cases "preprocessBitmap pf bitmap")
        case (Inl e)
        with Some show ?thesis by (simp add: processFrameBody_def)
      next
        case (Inr pre)
        show ?thesis
        proof (cases "bitmapToInputBuffer pf pre buf")
          case (Inl e)
          with Some Inr buf show ?thesis by (simp add: processFrameBody_def)
        next
          case inr: (Inr buf')
          from throws [OF Some Inr buf inr] obtain e where "run buf' = Inl e" by blast
          then have "runInference (p\<lparr>inputBuffer := Some buf'\<rparr>) = Inl e"
            using run by (simp add: runInference_def)
          with Some Inr buf inr show ?thesis by (simp add: processFrameBody_def)
        qed
      qed
    qed
    then show ?thesis using False by (auto simp: processFrame_def)
  qed
  then show ?thesis by (simp add: cameraProcessFrame_def)
qed

theorem processFrame_unavailable_witness:
  "processFrame
      \<lparr> imageToBitmap = (\<lambda>i. Some \<lparr> bmp_width = 2, bmp_height = 2, bmp_pixels = (\<lambda>x y. 0) \<rparr>),
        preprocessBitmap = Inr, bitmapToInputBuffer = (\<lambda>b buf. Inr buf),
        currentTimeMillis = 1, nanoTime = 2 \<rparr>
      \<lparr> interpreter = Some (\<lambda>buf. Inl IllegalStateException), inputBuffer = Some [],
        isModelLoaded = True \<rparr>
      \<lparr> img_width = 2, img_height = 2, img_planes = [] \<rparr> = Inr None
   \<and> cameraProcessFrame
      \<lparr> imageToBitmap = (\<lambda>i. Some \<lparr> bmp_width = 2, bmp_height = 2, bmp_pixels = (\<lambda>x y. 0) \<rparr>),
        preprocessBitmap = Inr, bitmapToInputBuffer = (\<lambda>b buf. Inr buf),
        currentTimeMillis = 1, nanoTime = 2 \<rparr>
      (Some \<lparr> interpreter = Some (\<lambda>buf. Inl IllegalStateException), inputBuffer = Some [],
        isModelLoaded = True \<rparr>)
      \<lparr> img_width = 2, img_height = 2, img_planes = [] \<rparr> =
     Some \<lparr> ev_timestamp = 1, ev_width = 2, ev_height = 2, ev_format = ''YUV_420_888'',
            ev_eyeLandmarks = None \<rparr>"
  using processFrame_unavailable
    [of "\<lparr> interpreter = Some (\<lambda>buf. Inl IllegalStateException), inputBuffer = Some [],
           isModelLoaded = True \<rparr>"
        "\<lparr> imageToBitmap = (\<lambda>i. Some \<lparr> bmp_width = 2, bmp_height = 2, bmp_pixels = (\<lambda>x y. 0) \<rparr>),
           preprocessBitmap = Inr, bitmapToInputBuffer = (\<lambda>b buf. Inr buf),
           currentTimeMillis = 1, nanoTime = 2 \<rparr>"
        "\<lparr> img_width = 2, img_height = 2, img_planes = [] \<rparr>"]
  by simp

text \<open>
  C8 as stated fails: no failure propagates. With the model not loaded
  \<^verbatim>\<open>processFrame\<close> returns normally with \<^verbatim>\<open>null\<close>; it returns the same \<^verbatim>\<open>null\<close>
  with a working model when the frame cannot be converted to a bitmap; and the caller
  sends the frame event, without landmarks, as for any other frame.
\<close>

theorem processFrame_null_counterexample:
  "processFrame
      \<lparr> imageToBitmap = (\<lambda>i. Some \<lparr> bmp_width = 2, bmp_height = 2, bmp_pixels = (\<lambda>x y. 0) \<rparr>),
        preprocessBitmap = Inr, bitmapToInputBuffer = (\<lambda>b buf. Inr buf),
        currentTimeMillis = 1, nanoTime = 2 \<rparr>
      \<lparr> interpreter = None, inputBuffer = None, isModelLoaded = False \<rparr>
      \<lparr> img_width = 2, img_height = 2, img_planes = [] \<rparr> = Inr None
   \<and> processFrame
      \<lparr> imageToBitmap = (\<lambda>i. None),
        preprocessBitmap = Inr, bitmapToInputBuffer = (\<lambda>b buf. Inr buf),
        currentTimeMillis = 1, nanoTime = 2 \<rparr>
      \<lparr> interpreter = Some (\<lambda>buf. Inr ([], [])), inputBuffer = Some [], isModelLoaded = True \<rparr>
      \<lparr> img_width = 2, img_height = 2, img_planes = [] \<rparr> = Inr None
   \<and> cameraProcessFrame
      \<lparr> imageToBitmap = (\<lambda>i. Some \<lparr> bmp_width = 2, bmp_height = 2, bmp_pixels = (\<lambda>x y. 0) \<rparr>),
        preprocessBitmap = Inr, bitmapToInputBuffer = (\<lambda>b buf. Inr buf),
        currentTimeMillis = 1, nanoTime = 2 \<rparr>
      (Some \<lparr> interpreter = None, inputBuffer = None, isModelLoaded = False \<rparr>)
      \<lparr> img_width = 2, img_height = 2, img_planes = [] \<rparr> =
     Some \<lparr> ev_timestamp = 1, ev_width = 2, ev_height = 2, ev_format = ''YUV_420_888'',
            ev_eyeLandmarks = None \<rparr>"
  by (simp add: processFrame_def processFrameBody_def cameraProcessFrame_def)

section \<open>Properties of CalibrationService\<close>

text \<open>
  C9. For a finite raw gaze value \<open>x\<close>, \<^verbatim>\<open>applyCalibratedGaze\<close> returns \<open>x\<close> when no
  complete transform is loaded (nothing loaded, no calibration record, a record that is
  not complete or has no transform; in particular after loading from a store without a
  record), and returns \<open>slope * x + intercept\<close> clamped to \<open>[-1, 1]\<close> when a complete
  transform is loaded.
\<close>

theorem applyCalibratedGaze_spec:
  "((\<not> isLoaded svc \<or> svc_calibrationData svc = None
      \<or> (\<exists>d. svc_calibrationData svc = Some d \<and> (\<not> isComplete d \<or> linearTransform d = None)))
     \<longrightarrow> applyCalibratedGaze svc (Fin x) = Fin x)
   \<and> (\<forall>d a b. isLoaded svc \<and> svc_calibrationData svc = Some d \<and> isComplete d
          \<and> linearTransform d = Some \<lparr> slope = Fin a, intercept = Fin b \<rparr>
        \<longrightarrow> applyCalibratedGaze svc (Fin x) = Fin (max (- 1) (min 1 (a * x + b))))
   \<and> (storage ''gazeCalibration'' = None \<longrightarrow>
        applyCalibratedGaze
          (fst (loadCalibration \<lparr> svc_calibrationData = None, isLoaded = False \<rparr> storage)) (Fin x)
        = Fin x)"
  by (auto simp: applyCalibratedGaze_def isCalibrated_def loadCalibration_def Let_def
           split: option.splits)

theorem applyCalibratedGaze_spec_witness:
  "applyCalibratedGaze \<lparr> svc_calibrationData = None, isLoaded = False \<rparr> (Fin 0.4) = Fin 0.4
   \<and> applyCalibratedGaze
        \<lparr> svc_calibrationData =
            Some \<lparr> points = [], cal_timestamp = 0, isComplete = True,
                   linearTransform = Some \<lparr> slope = Fin 2, intercept = Fin 0.5 \<rparr> \<rparr>,
          isLoaded = True \<rparr> (Fin 0.4) = Fin 1
   \<and> applyCalibratedGaze
        (fst (loadCalibration \<lparr> svc_calibrationData = None, isLoaded = False \<rparr> Map.empty))
        (Fin 0.4) = Fin 0.4"
proof -
  let ?d = "\<lparr> points = [], cal_timestamp = 0, isComplete = True,
              linearTransform = Some \<lparr> slope = Fin 2, intercept = Fin 0.5 \<rparr> \<rparr>"
  have none: "applyCalibratedGaze \<lparr> svc_calibrationData = None, isLoaded = False \<rparr> (Fin 0.4) = Fin 0.4
      \<and> applyCalibratedGaze
        (fst (loadCalibration \<lparr> svc_calibrationData = None, isLoaded = False \<rparr> Map.empty))
        (Fin 0.4) = Fin 0.4"
    using applyCalibratedGaze_spec
          [of "\<lparr> svc_calibrationData = None, isLoaded = False \<rparr>" "0.4" Map.empty]
    by simp
  have "applyCalibratedGaze \<lparr> svc_calibrationData = Some ?d, isLoaded = True \<rparr> (Fin 0.4)
          = Fin (max (- 1) (min 1 (2 * 0.4 + 0.5)))"
    using applyCalibratedGaze_spec
          [of "\<lparr> svc_calibrationData = Some ?d, isLoaded = True \<rparr>" "0.4" Map.empty,
           THEN conjunct2, THEN conjunct1, rule_format, of ?d 2 "0.5"]
    by simp
  then have some: "applyCalibratedGaze \<lparr> svc_calibrationData = Some ?d, isLoaded = True \<rparr> (Fin 0.4)
          = Fin 1"
    by simp
  from none some show ?thesis by simp
qed

section \<open>Properties of the eye corners\<close>

lemma f32_err_le:
  assumes "\<bar>r\<bar> \<le> b" "b \<le> 2 ^ 104"
  shows "\<exists>v. f32 r = Fin v \<and> \<bar>v - r\<bar> \<le> b / 2 ^ 24 + 1 / 2 ^ 150"
proof -
  have "\<bar>r\<bar> < 2 ^ 128 - 2 ^ 103" using assms by simp
  from f32_error [OF this] obtain v where
    v: "f32 r = Fin v" "\<bar>v - r\<bar> \<le> \<bar>r\<bar> / 2 ^ 24 + 1 / 2 ^ 150" by blast
  have "\<bar>r\<bar> / 2 ^ 24 \<le> b / 2 ^ 24" using assms(1) by (simp add: divide_right_mono)
  with v show ?thesis by (intro exI [of _ v]) simp
qed

lemma f32_fraction:
  assumes "0 \<le> k" "k \<le> 1"
  shows "\<exists>c. f32 k = Fin c \<and> 0 \<le> c \<and> c \<le> 1 \<and> \<bar>c - k\<bar> \<le> 1 / 2 ^ 24 + 1 / 2 ^ 150"
proof -
  from f32_le_pow2 [of k 0] assms obtain c where c: "f32 k = Fin c" "0 \<le> c" "c \<le> 1" by auto
  from f32_err_le [of k 1] assms obtain c' where
    c': "f32 k = Fin c'" "\<bar>c' - k\<bar> \<le> 1 / 2 ^ 24 + 1 / 2 ^ 150" by auto
  with c show ?thesis by auto
qed

text \<open>The product \<open>w * k\<close> of the face width with a \<^verbatim>\<open>Float\<close> constant \<open>k\<close> between 0 and
  0.7, as binary32 computes it.\<close>

lemma fmul32_fraction:
  assumes "0 < w" "w \<le> 2 ^ 100" "0 \<le> k" "k \<le> 7 / 10"
  shows "\<exists>a. fmul32 (Fin w) (f32 k) = Fin a
           \<and> \<bar>a - k * w\<bar> \<le> 3 * w / 2 ^ 24 + 1 / 2 ^ 150 \<and> \<bar>a\<bar> \<le> w + 1 / 2 ^ 150"
proof -
  from f32_fraction [of k] assms obtain c where
    c: "f32 k = Fin c" "0 \<le> c" "c \<le> 1" "\<bar>c - k\<bar> \<le> 1 / 2 ^ 24 + 1 / 2 ^ 150" by auto
  have p0: "0 \<le> w * c" using assms(1) c(2) by simp
  have "w * c \<le> w * 1" using assms(1) c(3) by (intro mult_left_mono) simp_all
  then have p1: "\<bar>w * c\<bar> \<le> w" using p0 by simp
  from f32_err_le [OF p1] assms(2) obtain a where
    a: "f32 (w * c) = Fin a" "\<bar>a - w * c\<bar> \<le> w / 2 ^ 24 + 1 / 2 ^ 150" by auto
  have "w * c - k * w = w * (c - k)" by (simp add: algebra_simps)
  then have "\<bar>w * c - k * w\<bar> = w * \<bar>c - k\<bar>"
    using assms(1) by (simp add: abs_mult)
  also have "\<dots> \<le> w * (1 / 2 ^ 24 + 1 / 2 ^ 150)"
    using c(4) assms(1) by (intro mult_left_mono) simp_all
  also have "\<dots> \<le> 2 * w / 2 ^ 24"
    using assms(1) by (simp add: field_simps)
  finally have d: "\<bar>w * c - k * w\<bar> \<le> 2 * w / 2 ^ 24" .
  have e1: "\<bar>a - k * w\<bar> \<le> 3 * w / 2 ^ 24 + 1 / 2 ^ 150"
    using a(2) d by linarith
  have "k * w \<le> 7 / 10 * w" using assms(1,4) by (intro mult_right_mono) simp_all
  moreover have "0 \<le> k * w" using assms(1,3) by simp
  moreover have "3 * w / 2 ^ 24 \<le> 3 / 10 * w" using assms(1) by simp
  ultimately have e2: "\<bar>a\<bar> \<le> w + 1 / 2 ^ 150"
    using e1 by linarith
  have "fmul32 (Fin w) (f32 k) = Fin a"
    using c(1) a(1) by (simp add: fmul32_def)
  with e1 e2 show ?thesis by blast
qed

text \<open>An eye centre \<open>fl + a\<close> moved by the eye spacing \<open>b\<close> to an outer corner, where \<open>a\<close>
  and \<open>b\<close> are binary32 products of the face width: the result is within
  \<open>(\<bar>fl\<bar> + w) / 2\<^sup>2\<^sup>0\<close> (and a subnormal remainder) of the exact value.\<close>

lemma corner_rounded:
  assumes "0 < w" "w \<le> 2 ^ 100" "\<bar>fl\<bar> \<le> 2 ^ 100"
    and "\<bar>a - ka * w\<bar> \<le> 3 * w / 2 ^ 24 + 1 / 2 ^ 150" "\<bar>a\<bar> \<le> w + 1 / 2 ^ 150"
    and "\<bar>b - kb * w\<bar> \<le> 3 * w / 2 ^ 24 + 1 / 2 ^ 150" "\<bar>b\<bar> \<le> w + 1 / 2 ^ 150"
  shows "\<exists>x y. f32 (fl + a) = Fin x \<and> f32 (x + b) = Fin y
           \<and> \<bar>y - (fl + (ka + kb) * w)\<bar> \<le> (\<bar>fl\<bar> + w) / 2 ^ 20 + 8 / 2 ^ 150"
proof -
  define M where "M = \<bar>fl\<bar> + w"
  define h :: real where "h = 1 / 2 ^ 150"
  have h: "0 < h" "h \<le> 1" by (simp_all add: h_def)
  have M: "0 < M" "M \<le> 2 ^ 101" "w \<le> M" "\<bar>fl\<bar> \<le> M"
    using assms(1-3) by (simp_all add: M_def)
  have A: "\<bar>a - ka * w\<bar> \<le> 3 * w / 2 ^ 24 + h" "\<bar>a\<bar> \<le> w + h"
    and B: "\<bar>b - kb * w\<bar> \<le> 3 * w / 2 ^ 24 + h" "\<bar>b\<bar> \<le> w + h"
    using assms(4-7) by (simp_all add: h_def)
  have s1: "\<bar>fl + a\<bar> \<le> M + h" using A(2) by (simp add: M_def abs_le_iff) linarith
  have b1: "M + h \<le> 2 ^ 104" using M(2) h(2) by simp
  from f32_err_le [OF s1 b1] obtain x where
    x: "f32 (fl + a) = Fin x" "\<bar>x - (fl + a)\<bar> \<le> (M + h) / 2 ^ 24 + h"
    by (auto simp: h_def)
  have x2: "\<bar>x - (fl + a)\<bar> \<le> M / 2 ^ 24 + 2 * h"
    using x(2) h(1) by (simp add: add_divide_distrib)
  have "M / 2 ^ 24 \<le> M" using M(1) by (simp add: field_simps)
  then have s2: "\<bar>x + b\<bar> \<le> 3 * M + 4 * h"
    using x2 s1 B(2) M(3) by linarith
  have b2: "3 * M + 4 * h \<le> 2 ^ 104" using M(2) h(2) by simp
  from f32_err_le [OF s2 b2] obtain y where
    y: "f32 (x + b) = Fin y" "\<bar>y - (x + b)\<bar> \<le> (3 * M + 4 * h) / 2 ^ 24 + h"
    by (auto simp: h_def)
  have y2: "\<bar>y - (x + b)\<bar> \<le> 3 * M / 2 ^ 24 + 2 * h"
    using y(2) h(1) by (simp add: add_divide_distrib)
  have "y - (fl + (ka + kb) * w) = (y - (x + b)) + (x - (fl + a)) + (a - ka * w) + (b - kb * w)"
    by (simp add: algebra_simps)
  then have "\<bar>y - (fl + (ka + kb) * w)\<bar>
               \<le> \<bar>y - (x + b)\<bar> + \<bar>x - (fl + a)\<bar> + \<bar>a - ka * w\<bar> + \<bar>b - kb * w\<bar>"
    by linarith
  also have "\<dots> \<le> (3 * M / 2 ^ 24 + 2 * h) + (M / 2 ^ 24 + 2 * h)
                    + (3 * w / 2 ^ 24 + h) + (3 * w / 2 ^ 24 + h)"
    using y2 x2 A(1) B(1) by linarith
  also have "\<dots> \<le> M / 2 ^ 20 + 8 * h"
    using M(1,3) h(1) by simp
  finally have "\<bar>y - (fl + (ka + kb) * w)\<bar> \<le> (\<bar>fl\<bar> + w) / 2 ^ 20 + 8 / 2 ^ 150"
    by (simp add: M_def h_def)
  with x(1) y(1) show ?thesis by blast
qed

lemma neg_bounds:
  "\<bar>b - kb * w\<bar> \<le> e \<Longrightarrow> \<bar>- b - (- kb) * w\<bar> \<le> e" "\<bar>b\<bar> \<le> e' \<Longrightarrow> \<bar>- b\<bar> \<le> (e'::real)"
  by (simp_all add: abs_le_iff)

text \<open>Lines 210 to 225 on a finite face box: the two outer corners as binary32 computes
  them.\<close>

lemma outer_corners_rounded:
  assumes "0 < w" "w \<le> 2 ^ 100" "\<bar>fl\<bar> \<le> 2 ^ 100"
  shows "\<exists>lo ro.
           fsub32 (fadd32 (Fin fl) (fmul32 (Fin w) (f32 0.3))) (fmul32 (Fin w) (f32 0.08)) = Fin lo
         \<and> fadd32 (fadd32 (Fin fl) (fmul32 (Fin w) (f32 0.7))) (fmul32 (Fin w) (f32 0.08)) = Fin ro
         \<and> \<bar>lo - (fl + 0.22 * w)\<bar> \<le> (\<bar>fl\<bar> + w) / 2 ^ 20 + 8 / 2 ^ 150
         \<and> \<bar>ro - (fl + 0.78 * w)\<bar> \<le> (\<bar>fl\<bar> + w) / 2 ^ 20 + 8 / 2 ^ 150"
proof -
  from fmul32_fraction [OF assms(1,2), of "0.3"] obtain a3 where
    a3: "fmul32 (Fin w) (f32 0.3) = Fin a3" "\<bar>a3 - 0.3 * w\<bar> \<le> 3 * w / 2 ^ 24 + 1 / 2 ^ 150"
      "\<bar>a3\<bar> \<le> w + 1 / 2 ^ 150" by auto
  from fmul32_fraction [OF assms(1,2), of "0.7"] obtain a7 where
    a7: "fmul32 (Fin w) (f32 0.7) = Fin a7" "\<bar>a7 - 0.7 * w\<bar> \<le> 3 * w / 2 ^ 24 + 1 / 2 ^ 150"
      "\<bar>a7\<bar> \<le> w + 1 / 2 ^ 150" by auto
  from fmul32_fraction [OF assms(1,2), of "0.08"] obtain a8 where
    a8: "fmul32 (Fin w) (f32 0.08) = Fin a8" "\<bar>a8 - 0.08 * w\<bar> \<le> 3 * w / 2 ^ 24 + 1 / 2 ^ 150"
      "\<bar>a8\<bar> \<le> w + 1 / 2 ^ 150" by auto
  from corner_rounded [OF assms a3(2,3) neg_bounds(1) [OF a8(2)] neg_bounds(2) [OF a8(3)]]
  obtain lx lo where
    l: "f32 (fl + a3) = Fin lx" "f32 (lx + - a8) = Fin lo"
      "\<bar>lo - (fl + (0.3 + - 0.08) * w)\<bar> \<le> (\<bar>fl\<bar> + w) / 2 ^ 20 + 8 / 2 ^ 150" by blast
  from corner_rounded [OF assms a7(2,3) a8(2,3)]
  obtain rx ro where
    r: "f32 (fl + a7) = Fin rx" "f32 (rx + a8) = Fin ro"
      "\<bar>ro - (fl + (0.7 + 0.08) * w)\<bar> \<le> (\<bar>fl\<bar> + w) / 2 ^ 20 + 8 / 2 ^ 150" by blast
  have f1: "fsub32 (fadd32 (Fin fl) (fmul32 (Fin w) (f32 0.3))) (fmul32 (Fin w) (f32 0.08)) = Fin lo"
    unfolding a3(1) a8(1) using l(1,2) by (simp add: fadd32_def fsub32_def fsub_def)
  have f2: "fadd32 (fadd32 (Fin fl) (fmul32 (Fin w) (f32 0.7))) (fmul32 (Fin w) (f32 0.08)) = Fin ro"
    unfolding a7(1) a8(1) using r(1,2) by (simp add: fadd32_def)
  have l3: "\<bar>lo - (fl + 0.22 * w)\<bar> \<le> (\<bar>fl\<bar> + w) / 2 ^ 20 + 8 / 2 ^ 150"
    using l(3) by simp
  have r3: "\<bar>ro - (fl + 0.78 * w)\<bar> \<le> (\<bar>fl\<bar> + w) / 2 ^ 20 + 8 / 2 ^ 150"
    using r(3) by simp
  from f1 f2 l3 r3 show ?thesis by blast
qed

text \<open>A span of at least \<open>0.00100001\<close> is above the threshold \<^verbatim>\<open>0.001f\<close> after
  rounding.\<close>

lemma span_exceeds_threshold:
  assumes "0.00100001 \<le> d" "d \<le> 2 ^ 104"
  shows "fgt (f32 d) (f32 0.001)"
proof -
  have "\<bar>d\<bar> < 2 ^ 128 - 2 ^ 103" using assms by simp
  from f32_error [OF this] obtain sp where
    sp: "f32 d = Fin sp" "\<bar>sp - d\<bar> \<le> \<bar>d\<bar> / 2 ^ 24 + 1 / 2 ^ 150" by blast
  have "d - d / 2 ^ 24 - 1 / 2 ^ 150 \<le> sp" using sp(2) assms(1) by simp
  moreover have "8589935 / 2 ^ 33 < d - d / 2 ^ 24 - 1 / 2 ^ 150" using assms(1) by simp
  ultimately have "8589935 / 2 ^ 33 < sp" by linarith
  then show ?thesis unfolding sp(1) f32_threshold by simp
qed

lemma faceLandmarks_corners:
  shows "pt_x (outerCorner (leftEye (faceLandmarks bitmap c box t ns))) =
           fsub32 (fadd32 (faceLeft box) (fmul32 (faceWidth box) (f32 0.3)))
             (fmul32 (faceWidth box) (f32 0.08))"
    and "pt_x (outerCorner (rightEye (faceLandmarks bitmap c box t ns))) =
           fadd32 (fadd32 (faceLeft box) (fmul32 (faceWidth box) (f32 0.7)))
             (fmul32 (faceWidth box) (f32 0.08))"
    and "\<exists>i. gazeData (faceLandmarks bitmap c box t ns) =
           Some (calculateNormalizedGaze i
             (fsub32 (fadd32 (faceLeft box) (fmul32 (faceWidth box) (f32 0.3)))
                (fmul32 (faceWidth box) (f32 0.08)))
             (fadd32 (fadd32 (faceLeft box) (fmul32 (faceWidth box) (f32 0.7)))
                (fmul32 (faceWidth box) (f32 0.08))) c)"
    by (simp_all add: faceLandmarks_def Let_def) (rule exI, rule refl)

lemma calculateNormalizedGaze_ordered:
  assumes "l \<le> r"
  shows "leftEyeX (calculateNormalizedGaze i (Fin l) (Fin r) c) = Fin l"
    and "rightEyeX (calculateNormalizedGaze i (Fin l) (Fin r) c) = Fin r"
    and "rawGazeX (calculateNormalizedGaze i (Fin l) (Fin r) c) = i"
    and "fgt (fsub32 (Fin r) (Fin l)) (f32 0.001) \<Longrightarrow>
         normalizedGazeX (calculateNormalizedGaze i (Fin l) (Fin r) c) =
           fmax (Fin (- 1)) (fmin (Fin 1)
             (fsub32 (fmul32 (Fin 2) (fdiv32 (fsub32 i (Fin l)) (fsub32 (Fin r) (Fin l))))
                (Fin 1)))"
    and "\<not> fgt (fsub32 (Fin r) (Fin l)) (f32 0.001) \<Longrightarrow>
         normalizedGazeX (calculateNormalizedGaze i (Fin l) (Fin r) c) = Fin 0"
  using assms by (simp_all add: calculateNormalizedGaze_def Let_def min_absorb1 max_absorb2)

text \<open>
  C10 (as amended). For an accepted detection whose face box has a finite left edge \<open>fl\<close>
  and a finite width \<open>w > 0\<close>, both of magnitude at most \<open>2\<^sup>1\<^sup>0\<^sup>0\<close>, the outer corners passed
  to the normaliser are the binary32 results of lines 210 to 225: they are within
  \<open>(\<bar>fl\<bar> + w) / 2\<^sup>2\<^sup>0 + 2\<^sup>-\<^sup>1\<^sup>4\<^sup>7\<close> of \<open>fl + 0.22 * w\<close> and \<open>fl + 0.78 * w\<close>, and their difference is
  within \<open>(\<bar>fl\<bar> + w) / 2\<^sup>1\<^sup>9 + 2\<^sup>-\<^sup>1\<^sup>4\<^sup>6\<close> of \<open>0.56 * w\<close>. When \<open>0.56 * w\<close> exceeds the threshold by
  more than that rounding error, \<open>0.56 * w - (\<bar>fl\<bar> + w) / 2\<^sup>1\<^sup>9 > 0.0010001\<close>, the span the
  normaliser computes is above \<^verbatim>\<open>0.001f\<close> and the normalised gaze is the clamped
  division formula over that span, not the value of the degenerate branch.
\<close>

theorem outer_corner_span:
  assumes "decodeFace regressors classificators imageWidth imageHeight = Inr (Some (c, box))"
    and "faceLeft box = Fin fl" and "faceWidth box = Fin w"
    and "0 < w" and "w \<le> 2 ^ 100" and "\<bar>fl\<bar> \<le> 2 ^ 100"
  shows "\<exists>lm g lo ro.
           processBlazeFaceDetections regressors classificators bitmap imageWidth imageHeight
             t ns = Inr lm
         \<and> pt_x (outerCorner (leftEye lm)) = Fin lo
         \<and> pt_x (outerCorner (rightEye lm)) = Fin ro
         \<and> \<bar>lo - (fl + 0.22 * w)\<bar> \<le> (\<bar>fl\<bar> + w) / 2 ^ 20 + 8 / 2 ^ 150
         \<and> \<bar>ro - (fl + 0.78 * w)\<bar> \<le> (\<bar>fl\<bar> + w) / 2 ^ 20 + 8 / 2 ^ 150
         \<and> \<bar>(ro - lo) - 0.56 * w\<bar> \<le> (\<bar>fl\<bar> + w) / 2 ^ 19 + 16 / 2 ^ 150
         \<and> gazeData lm = Some g
         \<and> (0.0010001 < 0.56 * w - (\<bar>fl\<bar> + w) / 2 ^ 19 \<longrightarrow>
              leftEyeX g = Fin lo \<and> rightEyeX g = Fin ro
            \<and> fgt (fsub32 (Fin ro) (Fin lo)) (f32 0.001)
            \<and> normalizedGazeX g =
                fmax (Fin (- 1)) (fmin (Fin 1)
                  (fsub32 (fmul32 (Fin 2)
                     (fdiv32 (fsub32 (rawGazeX g) (Fin lo)) (fsub32 (Fin ro) (Fin lo))))
                     (Fin 1))))"
proof -
  let ?lm = "faceLandmarks bitmap c box t ns"
  define M where "M = \<bar>fl\<bar> + w"
  define L where "L = fl + 0.22 * w"
  define R where "R = fl + 0.78 * w"
  define S where "S = 0.56 * w"
  have M: "0 < M" "M \<le> 2 ^ 101" "w \<le> M" using assms(4-6) by (simp_all add: M_def)
  have S: "R - L = S" "0 \<le> S" "S \<le> M"
    using assms(4) M(3) by (simp_all add: L_def R_def S_def algebra_simps)
  have r: "processBlazeFaceDetections regressors classificators bitmap imageWidth imageHeight
             t ns = Inr ?lm"
    using assms(1) by (simp add: processBlazeFaceDetections_def)
  from outer_corners_rounded [OF assms(4-6)] obtain lo ro where
    lo: "fsub32 (fadd32 (Fin fl) (fmul32 (Fin w) (f32 0.3))) (fmul32 (Fin w) (f32 0.08)) = Fin lo"
    and ro: "fadd32 (fadd32 (Fin fl) (fmul32 (Fin w) (f32 0.7))) (fmul32 (Fin w) (f32 0.08)) = Fin ro"
    and el: "\<bar>lo - L\<bar> \<le> M / 2 ^ 20 + 8 / 2 ^ 150"
    and er: "\<bar>ro - R\<bar> \<le> M / 2 ^ 20 + 8 / 2 ^ 150"
    unfolding L_def R_def M_def by blast
  have cl: "pt_x (outerCorner (leftEye ?lm)) = Fin lo"
    unfolding faceLandmarks_corners(1) assms(2,3) by (rule lo)
  have cr: "pt_x (outerCorner (rightEye ?lm)) = Fin ro"
    unfolding faceLandmarks_corners(2) assms(2,3) by (rule ro)
  from faceLandmarks_corners(3) [of bitmap c box t ns] obtain i where
    g: "gazeData ?lm = Some (calculateNormalizedGaze i (Fin lo) (Fin ro) c)"
    unfolding assms(2,3) lo ro by blast
  define g where "g = calculateNormalizedGaze i (Fin lo) (Fin ro) c"
  have "(ro - lo) - S = (ro - R) - (lo - L)" using S(1) by simp
  then have "\<bar>(ro - lo) - S\<bar> \<le> \<bar>ro - R\<bar> + \<bar>lo - L\<bar>" by linarith
  also have "\<dots> \<le> (M / 2 ^ 20 + 8 / 2 ^ 150) + (M / 2 ^ 20 + 8 / 2 ^ 150)"
    using el er by linarith
  also have "\<dots> = M / 2 ^ 19 + 16 / 2 ^ 150" by simp
  finally have ed: "\<bar>(ro - lo) - S\<bar> \<le> M / 2 ^ 19 + 16 / 2 ^ 150" .
  have n: "leftEyeX g = Fin lo \<and> rightEyeX g = Fin ro
         \<and> fgt (fsub32 (Fin ro) (Fin lo)) (f32 0.001)
         \<and> normalizedGazeX g =
             fmax (Fin (- 1)) (fmin (Fin 1)
               (fsub32 (fmul32 (Fin 2)
                  (fdiv32 (fsub32 (rawGazeX g) (Fin lo)) (fsub32 (Fin ro) (Fin lo))))
                  (Fin 1)))"
    if "0.0010001 < S - M / 2 ^ 19"
  proof -
    have "(16 :: real) / 2 ^ 150 \<le> 9 / 100000000" by simp
    moreover have "10001 / 10000000 < S - M / 2 ^ 19" using that by simp
    ultimately have "100001 / 100000000 \<le> ro - lo" using ed by linarith
    then have d1: "0.00100001 \<le> ro - lo" by simp
    then have le: "lo \<le> ro" by simp
    have "M / 2 ^ 19 \<le> M" using M(1) by (simp add: field_simps)
    moreover have "(16 :: real) / 2 ^ 150 \<le> 1" by simp
    ultimately have "ro - lo \<le> 2 * M + 1" using ed S(3) by linarith
    then have d2: "ro - lo \<le> 2 ^ 104" using M(2) by simp
    have big: "fgt (fsub32 (Fin ro) (Fin lo)) (f32 0.001)"
      using span_exceeds_threshold [OF d1 d2] by (simp add: fsub32_def)
    have raw: "rawGazeX g = i"
      unfolding g_def by (rule calculateNormalizedGaze_ordered(3) [OF le])
    show ?thesis
      unfolding raw unfolding g_def
      using calculateNormalizedGaze_ordered(1,2) [OF le, of i c]
        calculateNormalizedGaze_ordered(4) [OF le big, of i c] big
      by blast
  qed
  have "processBlazeFaceDetections regressors classificators bitmap imageWidth imageHeight
             t ns = Inr ?lm
         \<and> pt_x (outerCorner (leftEye ?lm)) = Fin lo
         \<and> pt_x (outerCorner (rightEye ?lm)) = Fin ro
         \<and> \<bar>lo - L\<bar> \<le> M / 2 ^ 20 + 8 / 2 ^ 150
         \<and> \<bar>ro - R\<bar> \<le> M / 2 ^ 20 + 8 / 2 ^ 150
         \<and> \<bar>(ro - lo) - S\<bar> \<le> M / 2 ^ 19 + 16 / 2 ^ 150
         \<and> gazeData ?lm = Some g
         \<and> (0.0010001 < S - M / 2 ^ 19 \<longrightarrow>
              leftEyeX g = Fin lo \<and> rightEyeX g = Fin ro
            \<and> fgt (fsub32 (Fin ro) (Fin lo)) (f32 0.001)
            \<and> normalizedGazeX g =
                fmax (Fin (- 1)) (fmin (Fin 1)
                  (fsub32 (fmul32 (Fin 2)
                     (fdiv32 (fsub32 (rawGazeX g) (Fin lo)) (fsub32 (Fin ro) (Fin lo))))
                     (Fin 1))))"
    using r cl cr el er ed g n unfolding g_def by blast
  then show ?thesis unfolding L_def R_def S_def M_def by blast
qed

lemma example_decode:
  "decodeFace [[Fin 1, Fin 1, Fin 1, Fin 1], [Fin 64, Fin 32, Fin 32, Fin 16, Fin 7], []]
      [Fin 0, Fin 30, NInf] 640 640 =
     Inr (Some (Fin 1,
       \<lparr> faceLeft = Fin 240, faceTop = Fin 120, faceWidth = Fin 160, faceHeight = Fin 80 \<rparr>))"
  by (simp add: decodeFace_def example_scan example_box)

theorem outer_corner_span_witness:
  "\<exists>lm g lo ro.
     processBlazeFaceDetections
       [[Fin 1, Fin 1, Fin 1, Fin 1], [Fin 64, Fin 32, Fin 32, Fin 16, Fin 7], []]
       [Fin 0, Fin 30, NInf]
       \<lparr> bmp_width = 640, bmp_height = 640, bmp_pixels = (\<lambda>x y. 0) \<rparr> 640 640 1 2 = Inr lm
   \<and> pt_x (outerCorner (leftEye lm)) = Fin lo
   \<and> pt_x (outerCorner (rightEye lm)) = Fin ro
   \<and> \<bar>lo - (240 + 0.22 * 160)\<bar> \<le> (\<bar>240\<bar> + 160) / 2 ^ 20 + 8 / 2 ^ 150
   \<and> \<bar>ro - (240 + 0.78 * 160)\<bar> \<le> (\<bar>240\<bar> + 160) / 2 ^ 20 + 8 / 2 ^ 150
   \<and> \<bar>(ro - lo) - 0.56 * 160\<bar> \<le> (\<bar>240\<bar> + 160) / 2 ^ 19 + 16 / 2 ^ 150
   \<and> gazeData lm = Some g
   \<and> leftEyeX g = Fin lo \<and> rightEyeX g = Fin ro
   \<and> fgt (fsub32 (Fin ro) (Fin lo)) (f32 0.001)
   \<and> normalizedGazeX g =
       fmax (Fin (- 1)) (fmin (Fin 1)
         (fsub32 (fmul32 (Fin 2)
            (fdiv32 (fsub32 (rawGazeX g) (Fin lo)) (fsub32 (Fin ro) (Fin lo))))
            (Fin 1)))"
  using outer_corner_span [OF example_decode, where fl = 240 and w = 160
      and bitmap = "\<lparr> bmp_width = 640, bmp_height = 640, bmp_pixels = (\<lambda>x y. 0) \<rparr>"
      and t = 1 and ns = 2]
  by simp

text \<open>Next to \<open>2\<^sup>2\<^sup>4\<close> the binary32 values are 1 apart below and 2 apart above: adding or
  subtracting less than a half returns \<open>2\<^sup>2\<^sup>4\<close>.\<close>

lemma fadd32_at_2p24:
  assumes "\<bar>a\<bar> < 1 / 2"
  shows "fadd32 (Fin 16777216) (Fin a) = Fin 16777216"
    and "fsub32 (Fin 16777216) (Fin a) = Fin 16777216"
proof -
  have "f32 (16777216 + a) = Fin (2 ^ 24)" using assms by (intro f32_near_2p24) simp_all
  then show "fadd32 (Fin 16777216) (Fin a) = Fin 16777216" by (simp add: fadd32_def)
  have "f32 (16777216 - a) = Fin (2 ^ 24)" using assms by (intro f32_near_2p24) simp_all
  then show "fsub32 (Fin 16777216) (Fin a) = Fin 16777216" by (simp add: fsub32_def)
qed

lemma fmul32_half:
  assumes "0 \<le> k" "k \<le> 7 / 10"
  shows "\<exists>a. fmul32 (Fin (1 / 2)) (f32 k) = Fin a \<and> \<bar>a\<bar> < 1 / 2"
proof -
  from fmul32_fraction [of "1 / 2" k] assms obtain a where
    a: "fmul32 (Fin (1 / 2)) (f32 k) = Fin a"
      "\<bar>a - k * (1 / 2)\<bar> \<le> 3 * (1 / 2) / 2 ^ 24 + 1 / 2 ^ 150" by auto
  have "3 * (1 / 2) / 2 ^ 24 + 1 / 2 ^ 150 \<le> (1 / 10 :: real)" by simp
  then have "\<bar>a\<bar> < 1 / 2" using a(2) assms by linarith
  with a(1) show ?thesis by blast
qed

lemma example_box_2p24:
  "faceBox [Fin 16777216, Fin 64, Fin (1 / 2), Fin (1 / 2)] 128 128 =
     Inr \<lparr> faceLeft = Fin 16777216, faceTop = Fin (255 / 4),
           faceWidth = Fin (1 / 2), faceHeight = Fin (1 / 2) \<rparr>"
proof -
  have a: "f32 16777216 = Fin 16777216" using f32_exact [of 16777216 8388608 1] by simp
  have b: "f32 (1 / 2) = Fin (1 / 2)" using f32_exact [of "1 / 2" 1 "- 1"] by simp
  have c: "f32 (1 / 4) = Fin (1 / 4)" using f32_exact [of "1 / 4" 1 "- 2"] by simp
  have d: "f32 (255 / 4) = Fin (255 / 4)" using f32_exact [of "255 / 4" 255 "- 2"] by simp
  have e: "f32 (67108863 / 4) = Fin 16777216" using f32_near_2p24 [of "67108863 / 4"] by simp
  show ?thesis
    by (simp add: faceBox_def Let_def toFloat32_def fdiv32_def fmul32_def fsub32_def
          f32_numeral a b c d e)
qed

text \<open>
  C10 as stated fails: the detection with the centre \<open>x = 2\<^sup>2\<^sup>4\<close> and the width \<open>0.5\<close> is
  accepted, its face box has the left edge \<open>2\<^sup>2\<^sup>4\<close> and the width \<open>0.5 > 0.001 / 0.56\<close>, and
  both outer corners are \<open>2\<^sup>2\<^sup>4\<close> in \<^verbatim>\<open>Float\<close> arithmetic: their difference is 0, not
  \<open>0.28\<close>, and the normaliser takes the degenerate branch.
\<close>

theorem outer_corner_rounding_counterexample:
  "\<exists>lm g.
     decodeFace [[Fin 16777216, Fin 64, Fin (1 / 2), Fin (1 / 2)]] [Fin 30] 128 128 =
       Inr (Some (Fin 1,
         \<lparr> faceLeft = Fin 16777216, faceTop = Fin (255 / 4),
           faceWidth = Fin (1 / 2), faceHeight = Fin (1 / 2) \<rparr>))
   \<and> (0.001 / 0.56 :: real) < 1 / 2
   \<and> processBlazeFaceDetections [[Fin 16777216, Fin 64, Fin (1 / 2), Fin (1 / 2)]] [Fin 30]
        \<lparr> bmp_width = 128, bmp_height = 128, bmp_pixels = (\<lambda>x y. 0) \<rparr> 128 128 1 2 = Inr lm
   \<and> pt_x (outerCorner (leftEye lm)) = Fin 16777216
   \<and> pt_x (outerCorner (rightEye lm)) = Fin 16777216
   \<and> gazeData lm = Some g
   \<and> leftEyeX g = Fin 16777216 \<and> rightEyeX g = Fin 16777216
   \<and> fsub32 (rightEyeX g) (leftEyeX g) = Fin 0
   \<and> normalizedGazeX g = Fin 0"
proof -
  let ?bmp = "\<lparr> bmp_width = 128, bmp_height = 128, bmp_pixels = (\<lambda>x y. 0) \<rparr>"
  let ?box = "\<lparr> faceLeft = Fin 16777216, faceTop = Fin (255 / 4),
                 faceWidth = Fin (1 / 2), faceHeight = Fin (1 / 2) \<rparr>"
  let ?lm = "faceLandmarks ?bmp (Fin 1) ?box 1 2"
  have s: "sigmoid (Fin 30) = Fin 1" by (rule sigmoid_saturated) simp
  have b: "bestDetection [Fin 30] = (0, Fin 1)"
    by (simp add: bestDetection_def scanStep_def Let_def s f32_confidenceThreshold)
  have dec: "decodeFace [[Fin 16777216, Fin 64, Fin (1 / 2), Fin (1 / 2)]] [Fin 30] 128 128 =
               Inr (Some (Fin 1, ?box))"
    by (simp add: decodeFace_def b example_box_2p24)
  have pr: "processBlazeFaceDetections [[Fin 16777216, Fin 64, Fin (1 / 2), Fin (1 / 2)]]
              [Fin 30] ?bmp 128 128 1 2 = Inr ?lm"
    by (simp add: processBlazeFaceDetections_def dec)
  from fmul32_half [of "0.3"] obtain a3 where
    a3: "fmul32 (Fin (1 / 2)) (f32 0.3) = Fin a3" "\<bar>a3\<bar> < 1 / 2" by auto
  from fmul32_half [of "0.7"] obtain a7 where
    a7: "fmul32 (Fin (1 / 2)) (f32 0.7) = Fin a7" "\<bar>a7\<bar> < 1 / 2" by auto
  from fmul32_half [of "0.08"] obtain a8 where
    a8: "fmul32 (Fin (1 / 2)) (f32 0.08) = Fin a8" "\<bar>a8\<bar> < 1 / 2" by auto
  have lo: "fsub32 (fadd32 (Fin 16777216) (fmul32 (Fin (1 / 2)) (f32 0.3)))
              (fmul32 (Fin (1 / 2)) (f32 0.08)) = Fin 16777216"
    unfolding a3(1) a8(1) fadd32_at_2p24(1) [OF a3(2)] by (rule fadd32_at_2p24(2) [OF a8(2)])
  have ro: "fadd32 (fadd32 (Fin 16777216) (fmul32 (Fin (1 / 2)) (f32 0.7)))
              (fmul32 (Fin (1 / 2)) (f32 0.08)) = Fin 16777216"
    unfolding a7(1) a8(1) fadd32_at_2p24(1) [OF a7(2)] by (rule fadd32_at_2p24(1) [OF a8(2)])
  have fl: "faceLeft ?box = Fin 16777216" and fw: "faceWidth ?box = Fin (1 / 2)" by simp_all
  have cl: "pt_x (outerCorner (leftEye ?lm)) = Fin 16777216"
    unfolding faceLandmarks_corners(1) fl fw by (rule lo)
  have cr: "pt_x (outerCorner (rightEye ?lm)) = Fin 16777216"
    unfolding faceLandmarks_corners(2) fl fw by (rule ro)
  from faceLandmarks_corners(3) [of ?bmp "Fin 1" ?box 1 2] obtain i where
    g: "gazeData ?lm = Some (calculateNormalizedGaze i (Fin 16777216) (Fin 16777216) (Fin 1))"
    unfolding fl fw lo ro by blast
  have z: "fsub32 (Fin 16777216) (Fin 16777216) = Fin 0" by (simp add: fsub32_def f32_def)
  have small: "\<not> fgt (fsub32 (Fin 16777216) (Fin 16777216)) (f32 0.001)"
    unfolding z f32_threshold by simp
  have n: "normalizedGazeX (calculateNormalizedGaze i (Fin 16777216) (Fin 16777216) (Fin 1)) = Fin 0"
    by (rule calculateNormalizedGaze_ordered(5) [OF _ small]) simp
  have l: "leftEyeX (calculateNormalizedGaze i (Fin 16777216) (Fin 16777216) (Fin 1)) = Fin 16777216"
    by (rule calculateNormalizedGaze_ordered(1)) simp
  have r: "rightEyeX (calculateNormalizedGaze i (Fin 16777216) (Fin 16777216) (Fin 1)) = Fin 16777216"
    by (rule calculateNormalizedGaze_ordered(2)) simp
  have q: "(0.001 / 0.56 :: real) < 1 / 2" by simp
  have "fsub32
          (rightEyeX (calculateNormalizedGaze i (Fin 16777216) (Fin 16777216) (Fin 1)))
          (leftEyeX (calculateNormalizedGaze i (Fin 16777216) (Fin 16777216) (Fin 1))) = Fin 0"
    unfolding l r by (rule z)
  with dec pr cl cr g n l r q show ?thesis by blast
qed

section \<open>Properties of calculateLinearTransform\<close>

lemma isFinite_iff: "isFinite a \<longleftrightarrow> (\<exists>r. a = Fin r)"
  by (cases a) simp_all

lemma isFinite_the_real: "isFinite a \<Longrightarrow> a = Fin (the_real a)"
  by (cases a) simp_all

lemma foldl_fadd_Fin:
  "\<forall>p\<in>set vs. isFinite (f p) \<Longrightarrow>
   foldl (\<lambda>sum p. fadd sum (f p)) (Fin a) vs = Fin (a + (\<Sum>p\<leftarrow>vs. the_real (f p)))"
proof (induction vs arbitrary: a)
  case Nil
  then show ?case by simp
next
  case (Cons v vs)
  then obtain r where r: "f v = Fin r" by (auto simp: isFinite_iff)
  with Cons show ?case by (simp add: add.assoc)
qed

lemma valid_measured_finite: "p \<in> set (validAveragesOf pts) \<Longrightarrow> isFinite (measured p)"
  by (simp add: validAveragesOf_def)

lemma valid_target_finite:
  "\<forall>q\<in>set pts. isFinite (targetValue q) \<Longrightarrow> p \<in> set (validAveragesOf pts) \<Longrightarrow>
   isFinite (target p)"
  by (auto simp: validAveragesOf_def averagesOf_def)

lemma fmul_finite: "isFinite a \<Longrightarrow> isFinite b \<Longrightarrow> isFinite (fmul a b)"
  by (cases a; cases b) simp_all

lemma the_real_fmul: "isFinite a \<Longrightarrow> isFinite b \<Longrightarrow> the_real (fmul a b) = the_real a * the_real b"
  by (cases a; cases b) simp_all

lemma sumX_valid:
  "foldl (\<lambda>sum p. fadd sum (measured p)) (Fin 0) (validAveragesOf pts)
     = Fin (\<Sum>p\<leftarrow>validAveragesOf pts. the_real (measured p))"
  using foldl_fadd_Fin [of "validAveragesOf pts" measured 0]
  by (simp add: valid_measured_finite)

lemma sumX2_valid:
  "foldl (\<lambda>sum p. fadd sum (fmul (measured p) (measured p))) (Fin 0) (validAveragesOf pts)
     = Fin (\<Sum>p\<leftarrow>validAveragesOf pts. the_real (measured p) * the_real (measured p))"
proof -
  have fin: "\<forall>p\<in>set (validAveragesOf pts). isFinite (fmul (measured p) (measured p))"
    by (simp add: valid_measured_finite fmul_finite)
  have eq: "map (\<lambda>p. the_real (fmul (measured p) (measured p))) (validAveragesOf pts)
          = map (\<lambda>p. the_real (measured p) * the_real (measured p)) (validAveragesOf pts)"
    by (rule map_cong) (simp_all add: valid_measured_finite the_real_fmul)
  from foldl_fadd_Fin [OF fin, of 0] show ?thesis by (simp add: eq)
qed

lemma sumY_valid:
  assumes "\<forall>q\<in>set pts. isFinite (targetValue q)"
  shows "foldl (\<lambda>sum p. fadd sum (target p)) (Fin 0) (validAveragesOf pts)
     = Fin (\<Sum>p\<leftarrow>validAveragesOf pts. the_real (target p))"
  using foldl_fadd_Fin [of "validAveragesOf pts" target 0] assms
  by (simp add: valid_target_finite)

lemma sumXY_valid:
  assumes "\<forall>q\<in>set pts. isFinite (targetValue q)"
  shows "foldl (\<lambda>sum p. fadd sum (fmul (measured p) (target p))) (Fin 0) (validAveragesOf pts)
     = Fin (\<Sum>p\<leftarrow>validAveragesOf pts. the_real (measured p) * the_real (target p))"
proof -
  have fin: "\<forall>p\<in>set (validAveragesOf pts). isFinite (fmul (measured p) (target p))"
    using assms by (simp add: valid_measured_finite valid_target_finite fmul_finite)
  have eq: "map (\<lambda>p. the_real (fmul (measured p) (target p))) (validAveragesOf pts)
          = map (\<lambda>p. the_real (measured p) * the_real (target p)) (validAveragesOf pts)"
    using assms by (intro map_cong) (simp_all add: valid_measured_finite valid_target_finite the_real_fmul)
  from foldl_fadd_Fin [OF fin, of 0] show ?thesis by (simp add: eq)
qed

text \<open>
  C1. For the three calibration points of a run with finite target values, when at least
  two means are valid and the regression denominator \<open>n * \<Sum>x\<^sup>2 - (\<Sum>x)\<^sup>2\<close> has magnitude at
  least \<open>10\<^sup>-\<^sup>1\<^sup>0\<close>, the transform is the least-squares fit over the valid triples:
  \<open>slope = (n * \<Sum>xy - \<Sum>x * \<Sum>y) / (n * \<Sum>x\<^sup>2 - (\<Sum>x)\<^sup>2)\<close> and
  \<open>intercept = (\<Sum>y - slope * \<Sum>x) / n\<close>, with \<open>x\<close> the measured means and \<open>y\<close> the
  target values.
\<close>

theorem regression_closed_form:
  assumes "length pts = 3"
    and "2 \<le> length (validAveragesOf pts)"
    and "\<forall>p\<in>set pts. isFinite (targetValue p)"
    and "n = real (length (validAveragesOf pts))"
    and "sumX = (\<Sum>p\<leftarrow>validAveragesOf pts. the_real (measured p))"
    and "sumY = (\<Sum>p\<leftarrow>validAveragesOf pts. the_real (target p))"
    and "sumXY = (\<Sum>p\<leftarrow>validAveragesOf pts. the_real (measured p) * the_real (target p))"
    and "sumXX = (\<Sum>p\<leftarrow>validAveragesOf pts. the_real (measured p) * the_real (measured p))"
    and "1 / 10 ^ 10 \<le> \<bar>n * sumXX - sumX * sumX\<bar>"
    and "m = (n * sumXY - sumX * sumY) / (n * sumXX - sumX * sumX)"
  shows "calculateLinearTransform pts = \<lparr> slope = Fin m, intercept = Fin ((sumY - m * sumX) / n) \<rparr>"
proof -
  have dn: "n * sumXX - sumX * sumX \<noteq> 0"
    using assms(9) by auto
  have nn: "n \<noteq> 0" using assms(2,4) by auto
  have nlt: "\<not> \<bar>n * sumXX - sumX * sumX\<bar> < 1 / 10 ^ 10"
    using assms(9) by linarith
  show ?thesis
    using assms(1,2) dn nn nlt
    unfolding calculateLinearTransform_def Let_def
    by (simp add: sumX_valid sumX2_valid sumY_valid [OF assms(3)] sumXY_valid [OF assms(3)]
          assms(4-8,10) [symmetric])
qed


theorem regression_closed_form_witness:
  "calculateLinearTransform
     [\<lparr> position = Left, gazeValues = [Fin (- 0.6), Fin (- 0.4)], targetValue = Fin (- 1) \<rparr>,
      \<lparr> position = Center, gazeValues = [], targetValue = Fin 0 \<rparr>,
      \<lparr> position = Right, gazeValues = [Fin 1, Fin 1], targetValue = Fin 1 \<rparr>]
   = \<lparr> slope = Fin (4 / 3), intercept = Fin (- 1 / 3) \<rparr>"
proof -
  let ?pts = "[\<lparr> position = Left, gazeValues = [Fin (- 0.6), Fin (- 0.4)], targetValue = Fin (- 1) \<rparr>,
      \<lparr> position = Center, gazeValues = [], targetValue = Fin 0 \<rparr>,
      \<lparr> position = Right, gazeValues = [Fin 1, Fin 1], targetValue = Fin 1 \<rparr>]"
  have va: "validAveragesOf ?pts =
              [\<lparr> target = Fin (- 1), measured = Fin (- 0.5) \<rparr>, \<lparr> target = Fin 1, measured = Fin 1 \<rparr>]"
    by (simp add: validAveragesOf_def averagesOf_def)
  have h: "2 \<le> length (validAveragesOf ?pts)"
    "\<forall>p\<in>set ?pts. isFinite (targetValue p)"
    "2 = real (length (validAveragesOf ?pts))"
    "0.5 = (\<Sum>p\<leftarrow>validAveragesOf ?pts. the_real (measured p))"
    "0 = (\<Sum>p\<leftarrow>validAveragesOf ?pts. the_real (target p))"
    "1.5 = (\<Sum>p\<leftarrow>validAveragesOf ?pts. the_real (measured p) * the_real (target p))"
    "1.25 = (\<Sum>p\<leftarrow>validAveragesOf ?pts. the_real (measured p) * the_real (measured p))"
    unfolding va by simp_all
  have d: "1 / 10 ^ 10 \<le> \<bar>2 * 1.25 - 0.5 * (0.5::real)\<bar>" by simp
  have "calculateLinearTransform ?pts =
          \<lparr> slope = Fin ((2 * 1.5 - 0.5 * 0) / (2 * 1.25 - 0.5 * 0.5)),
            intercept = Fin ((0 - (2 * 1.5 - 0.5 * 0) / (2 * 1.25 - 0.5 * 0.5) * 0.5) / 2) \<rparr>"
    by (rule regression_closed_form [OF _ h d refl]) simp
  then show ?thesis by simp
qed

lemma foldl_fmax_Fin: "foldl fmax (Fin a) (map Fin ys) = Fin (fold max ys a)"
  by (induction ys arbitrary: a) (simp_all add: max.commute)

lemma foldl_fmin_Fin: "foldl fmin (Fin a) (map Fin ys) = Fin (fold min ys a)"
  by (induction ys arbitrary: a) (simp_all add: min.commute)

lemma Math_max_Fin: "ys \<noteq> [] \<Longrightarrow> Math_max (map Fin ys) = Fin (Max (set ys))"
proof (cases ys)
  case Nil
  assume "ys \<noteq> []"
  with Nil show ?thesis by simp
next
  case (Cons y ys')
  have "Math_max (map Fin ys) = foldl fmax (Fin y) (map Fin ys')"
    by (simp add: Cons Math_max_def fmax_def)
  also have "\<dots> = Fin (fold max ys' y)" by (rule foldl_fmax_Fin)
  also have "fold max ys' y = Max (set ys)"
    unfolding Cons by (rule Max.set_eq_fold [symmetric])
  finally show ?thesis .
qed

lemma Math_min_Fin: "ys \<noteq> [] \<Longrightarrow> Math_min (map Fin ys) = Fin (Min (set ys))"
proof (cases ys)
  case Nil
  assume "ys \<noteq> []"
  with Nil show ?thesis by simp
next
  case (Cons y ys')
  have "Math_min (map Fin ys) = foldl fmin (Fin y) (map Fin ys')"
    by (simp add: Cons Math_min_def fmin_def)
  also have "\<dots> = Fin (fold min ys' y)" by (rule foldl_fmin_Fin)
  also have "fold min ys' y = Min (set ys)"
    unfolding Cons by (rule Min.set_eq_fold [symmetric])
  finally show ?thesis .
qed

lemma measured_valid_map:
  "map measured (validAveragesOf pts) = map Fin (map (\<lambda>p. the_real (measured p)) (validAveragesOf pts))"
  by (simp add: valid_measured_finite isFinite_the_real [symmetric])

text \<open>
  C3. For the three calibration points of a run with at least two valid means, when the
  regression denominator has magnitude below \<open>10\<^sup>-\<^sup>1\<^sup>0\<close> the transform is the range-based
  fallback: \<open>slope = 2 / measuredRange\<close> when the range of the valid means is positive
  and 1 when it is zero, and \<open>intercept = - mean(measured) * slope\<close>.
\<close>

theorem regression_fallback:
  assumes "length pts = 3"
    and "2 \<le> length (validAveragesOf pts)"
    and "xs = map (\<lambda>p. the_real (measured p)) (validAveragesOf pts)"
    and "n = real (length xs)"
    and "\<bar>n * (\<Sum>x\<leftarrow>xs. x * x) - sum_list xs * sum_list xs\<bar> < 1 / 10 ^ 10"
    and "measuredRange = Max (set xs) - Min (set xs)"
    and "m = (if 0 < measuredRange then 2 / measuredRange else 1)"
  shows "calculateLinearTransform pts = \<lparr> slope = Fin m, intercept = Fin (- (sum_list xs / n) * m) \<rparr>"
proof -
  have ne: "xs \<noteq> []" using assms(2,3) by auto
  have nn: "n \<noteq> 0" using assms(2,3,4) by auto
  have sx: "(\<Sum>p\<leftarrow>validAveragesOf pts. the_real (measured p)) = sum_list xs"
    by (simp add: assms(3))
  have sx2: "(\<Sum>p\<leftarrow>validAveragesOf pts. the_real (measured p) * the_real (measured p))
               = (\<Sum>x\<leftarrow>xs. x * x)"
    by (simp add: assms(3) comp_def)
  have len: "real (length (validAveragesOf pts)) = n"
    by (simp add: assms(3,4))
  have mxs: "map measured (validAveragesOf pts) = map Fin xs"
    unfolding assms(3) by (rule measured_valid_map)
  have rng: "fsub (Math_max (map Fin xs)) (Math_min (map Fin xs)) = Fin measuredRange"
    using ne by (simp add: Math_max_Fin Math_min_Fin assms(6))
  show ?thesis
    using assms(1,2,5) nn
    unfolding calculateLinearTransform_def Let_def
    by (simp add: sumX_valid sumX2_valid sx sx2 len mxs rng assms(7))
qed

theorem regression_fallback_witness:
  "calculateLinearTransform
     [\<lparr> position = Left, gazeValues = [Fin 0], targetValue = Fin (- 1) \<rparr>,
      \<lparr> position = Center, gazeValues = [Fin (1 / 10 ^ 6)], targetValue = Fin 0 \<rparr>,
      \<lparr> position = Right, gazeValues = [Fin 0], targetValue = Fin 1 \<rparr>]
     = \<lparr> slope = Fin 2000000, intercept = Fin (- 2 / 3) \<rparr>
   \<and> calculateLinearTransform
     [\<lparr> position = Left, gazeValues = [Fin 0.5], targetValue = Fin (- 1) \<rparr>,
      \<lparr> position = Center, gazeValues = [Fin 0.5], targetValue = Fin 0 \<rparr>,
      \<lparr> position = Right, gazeValues = [Fin 0.5], targetValue = Fin 1 \<rparr>]
     = \<lparr> slope = Fin 1, intercept = Fin (- 0.5) \<rparr>"
proof
  let ?pts = "[\<lparr> position = Left, gazeValues = [Fin 0], targetValue = Fin (- 1) \<rparr>,
      \<lparr> position = Center, gazeValues = [Fin (1 / 10 ^ 6)], targetValue = Fin 0 \<rparr>,
      \<lparr> position = Right, gazeValues = [Fin 0], targetValue = Fin 1 \<rparr>]"
  have va: "validAveragesOf ?pts =
              [\<lparr> target = Fin (- 1), measured = Fin 0 \<rparr>,
               \<lparr> target = Fin 0, measured = Fin (1 / 10 ^ 6) \<rparr>,
               \<lparr> target = Fin 1, measured = Fin 0 \<rparr>]"
    by (simp add: validAveragesOf_def averagesOf_def)
  have "calculateLinearTransform ?pts =
          \<lparr> slope = Fin (2 / (1 / 10 ^ 6)),
            intercept = Fin (- (sum_list [0, 1 / 10 ^ 6, 0] / 3) * (2 / (1 / 10 ^ 6))) \<rparr>"
  proof (rule regression_fallback [where xs = "[0, 1 / 10 ^ 6, 0]" and n = 3
          and measuredRange = "1 / 10 ^ 6"])
    show "2 \<le> length (validAveragesOf ?pts)" unfolding va by simp
    show "[0, 1 / 10 ^ 6, 0] = map (\<lambda>p. the_real (measured p)) (validAveragesOf ?pts)"
      unfolding va by simp
  qed simp_all
  then show "calculateLinearTransform ?pts = \<lparr> slope = Fin 2000000, intercept = Fin (- 2 / 3) \<rparr>"
    by simp
next
  let ?pts = "[\<lparr> position = Left, gazeValues = [Fin 0.5], targetValue = Fin (- 1) \<rparr>,
      \<lparr> position = Center, gazeValues = [Fin 0.5], targetValue = Fin 0 \<rparr>,
      \<lparr> position = Right, gazeValues = [Fin 0.5], targetValue = Fin 1 \<rparr>]"
  have va: "validAveragesOf ?pts =
              [\<lparr> target = Fin (- 1), measured = Fin 0.5 \<rparr>,
               \<lparr> target = Fin 0, measured = Fin 0.5 \<rparr>,
               \<lparr> target = Fin 1, measured = Fin 0.5 \<rparr>]"
    by (simp add: validAveragesOf_def averagesOf_def)
  have "calculateLinearTransform ?pts =
          \<lparr> slope = Fin 1, intercept = Fin (- (sum_list [0.5, 0.5, 0.5] / 3) * 1) \<rparr>"
  proof (rule regression_fallback [where xs = "[0.5, 0.5, 0.5]" and n = 3
          and measuredRange = 0])
    show "2 \<le> length (validAveragesOf ?pts)" unfolding va by simp
    show "[0.5, 0.5, 0.5] = map (\<lambda>p. the_real (measured p)) (validAveragesOf ?pts)"
      unfolding va by simp
  qed simp_all
  then show "calculateLinearTransform ?pts = \<lparr> slope = Fin 1, intercept = Fin (- 0.5) \<rparr>"
    by simp
qed


section \<open>Properties of completeCalibration\<close>

text \<open>
  C2 (as amended). When a run passes the checks of \<^verbatim>\<open>completeCalibration\<close> (every
  position collected, at least 5 samples each) and fewer than two means are valid,
  \<^verbatim>\<open>calculateLinearTransform\<close> returns the identity transform, and
  \<^verbatim>\<open>completeCalibration\<close> stores the calibration with that transform as complete and
  announces it; only a failing write leaves the store as it was.
\<close>

theorem insufficient_valid_identity:
  assumes "\<not> isCompleting st"
    and "pts = points (calibrationData st)"
    and "\<forall>pos\<in>set [Left, Center, Right]. pos \<in> set (map position pts)"
    and "\<forall>p\<in>set pts. 5 \<le> length (gazeValues p)"
    and "length (validAveragesOf pts) < 2"
  shows "calculateLinearTransform pts = identityTransform
       \<and> completeCalibration st now True storage =
           (Some (CalibrationComplete identityTransform),
            storage(''gazeCalibration'' \<mapsto>
              (calibrationData st)\<lparr> isComplete := True,
                                     linearTransform := Some identityTransform,
                                     cal_timestamp := now \<rparr>))
       \<and> completeCalibration st now False storage = (Some SaveError, storage)"
proof -
  have t: "calculateLinearTransform pts = identityTransform"
    using assms(5) by (simp add: calculateLinearTransform_def Let_def)
  have miss: "filter (\<lambda>pos. pos \<notin> set (map position pts)) [Left, Center, Right] = []"
    using assms(3) by simp
  have insuff: "filter (\<lambda>p. length (gazeValues p) < 5) pts = []"
    using assms(4) by (auto simp: filter_empty_conv)
  show ?thesis
    using assms(1) t miss insuff
    by (simp add: completeCalibration_def Let_def assms(2) [symmetric])
qed

theorem insufficient_valid_identity_witness:
  "completeCalibration
     \<lparr> currentStep = Right, frameCount = 15, isCollecting = False, isCompleting = False,
       calibrationData =
         \<lparr> points =
             [\<lparr> position = Left, gazeValues = [PInf, Fin 0, Fin 0, Fin 0, Fin 0], targetValue = Fin (- 1) \<rparr>,
              \<lparr> position = Center, gazeValues = [Fin 0, Fin 0, Fin 0, Fin 0, Fin 0], targetValue = Fin 0 \<rparr>,
              \<lparr> position = Right, gazeValues = [Fin 1, Fin 1, NInf, Fin 1, Fin 1], targetValue = Fin 1 \<rparr>],
           cal_timestamp = 0, isComplete = False, linearTransform = None \<rparr> \<rparr>
     9 True Map.empty =
   (Some (CalibrationComplete \<lparr> slope = Fin 1, intercept = Fin 0 \<rparr>),
    [''gazeCalibration'' \<mapsto>
       \<lparr> points =
             [\<lparr> position = Left, gazeValues = [PInf, Fin 0, Fin 0, Fin 0, Fin 0], targetValue = Fin (- 1) \<rparr>,
              \<lparr> position = Center, gazeValues = [Fin 0, Fin 0, Fin 0, Fin 0, Fin 0], targetValue = Fin 0 \<rparr>,
              \<lparr> position = Right, gazeValues = [Fin 1, Fin 1, NInf, Fin 1, Fin 1], targetValue = Fin 1 \<rparr>],
         cal_timestamp = 9, isComplete = True,
         linearTransform = Some \<lparr> slope = Fin 1, intercept = Fin 0 \<rparr> \<rparr>])"
proof -
  let ?pts = "[\<lparr> position = Left, gazeValues = [PInf, Fin 0, Fin 0, Fin 0, Fin 0], targetValue = Fin (- 1) \<rparr>,
              \<lparr> position = Center, gazeValues = [Fin 0, Fin 0, Fin 0, Fin 0, Fin 0], targetValue = Fin 0 \<rparr>,
              \<lparr> position = Right, gazeValues = [Fin 1, Fin 1, NInf, Fin 1, Fin 1], targetValue = Fin 1 \<rparr>]"
  let ?st = "\<lparr> currentStep = Right, frameCount = 15, isCollecting = False, isCompleting = False,
       calibrationData =
         \<lparr> points = ?pts, cal_timestamp = 0, isComplete = False, linearTransform = None \<rparr> \<rparr>"
  have va: "length (validAveragesOf ?pts) < 2"
    by (simp add: validAveragesOf_def averagesOf_def)
  have "\<not> isCompleting ?st" "?pts = points (calibrationData ?st)"
    "\<forall>pos\<in>set [Left, Center, Right]. pos \<in> set (map position ?pts)"
    "\<forall>p\<in>set ?pts. 5 \<le> length (gazeValues p)"
    by simp_all
  from insufficient_valid_identity [OF this va, of 9 Map.empty]
  show ?thesis by (simp add: identityTransform_def)
qed

text \<open>
  C2 as stated fails: in this run two of the three means are NaN, one valid triple
  remains, and the calibration is stored as complete with the identity transform and
  announced as complete, not rejected.
\<close>

theorem insufficient_data_counterexample:
  "length (validAveragesOf
     [\<lparr> position = Left, gazeValues = [Fin (- 0.8), NaN, Fin (- 0.8), Fin (- 0.8), Fin (- 0.8)],
        targetValue = Fin (- 1) \<rparr>,
      \<lparr> position = Center, gazeValues = [NaN, Fin 0, Fin 0, Fin 0, Fin 0], targetValue = Fin 0 \<rparr>,
      \<lparr> position = Right, gazeValues = [Fin 0.9, Fin 0.9, Fin 0.9, Fin 0.9, Fin 0.9],
        targetValue = Fin 1 \<rparr>]) = 1
   \<and> completeCalibration
     \<lparr> currentStep = Right, frameCount = 15, isCollecting = False, isCompleting = False,
       calibrationData =
         \<lparr> points =
             [\<lparr> position = Left, gazeValues = [Fin (- 0.8), NaN, Fin (- 0.8), Fin (- 0.8), Fin (- 0.8)],
                targetValue = Fin (- 1) \<rparr>,
              \<lparr> position = Center, gazeValues = [NaN, Fin 0, Fin 0, Fin 0, Fin 0], targetValue = Fin 0 \<rparr>,
              \<lparr> position = Right, gazeValues = [Fin 0.9, Fin 0.9, Fin 0.9, Fin 0.9, Fin 0.9],
                targetValue = Fin 1 \<rparr>],
           cal_timestamp = 0, isComplete = False, linearTransform = None \<rparr> \<rparr>
     7 True Map.empty =
   (Some (CalibrationComplete \<lparr> slope = Fin 1, intercept = Fin 0 \<rparr>),
    [''gazeCalibration'' \<mapsto>
       \<lparr> points =
             [\<lparr> position = Left, gazeValues = [Fin (- 0.8), NaN, Fin (- 0.8), Fin (- 0.8), Fin (- 0.8)],
                targetValue = Fin (- 1) \<rparr>,
              \<lparr> position = Center, gazeValues = [NaN, Fin 0, Fin 0, Fin 0, Fin 0], targetValue = Fin 0 \<rparr>,
              \<lparr> position = Right, gazeValues = [Fin 0.9, Fin 0.9, Fin 0.9, Fin 0.9, Fin 0.9],
                targetValue = Fin 1 \<rparr>],
         cal_timestamp = 7, isComplete = True,
         linearTransform = Some \<lparr> slope = Fin 1, intercept = Fin 0 \<rparr> \<rparr>])"
  by (simp add: completeCalibration_def calculateLinearTransform_def validAveragesOf_def
        averagesOf_def identityTransform_def Let_def)

end
